theory Spec2Isabelle
  imports Complex_Main "HOL-Library.Sublist"
begin

text \<open>
  The federation core of the MCP gateway, embedded function by function: the router's
  namespacing and routing (core/router.ts), the base adapter with its request
  correlation, circuit breaker and retry backoff (adapters/base.ts), the registry's
  capability merge (core/registry.ts), the gateway's sessions and request dispatch
  (core/gateway.ts) and the JSON-RPC endpoints (api/mcp-routes.ts). Mutable objects are
  records passed in and returned; a thrown error or a rejected promise is the left
  summand of a result; the clock, the random number generator, the transport and the
  backend are arguments. The definitions come first, the properties after them.
\<close>

section \<open>Strings\<close>

text \<open>
  A JavaScript string is a sequence of UTF-16 code units; \<open>indexOf\<close>, \<open>substring\<close> and a
  regular expression without the \<open>u\<close> flag all count code units. A string is therefore a
  list of code units, each a natural number. \<open>js\<close> embeds an ASCII literal.
\<close>

type_synonym jsstring = "nat list"

definition js :: "string \<Rightarrow> jsstring" where
  "js s = map of_char s"

text \<open>\<open>String.prototype.indexOf\<close>: the first index at which the needle starts, or -1.\<close>

fun indexOfFrom :: "jsstring \<Rightarrow> jsstring \<Rightarrow> int \<Rightarrow> int" where
  "indexOfFrom needle [] i = (if needle = [] then i else - 1)"
| "indexOfFrom needle (c # cs) i =
     (if prefix needle (c # cs) then i else indexOfFrom needle cs (i + 1))"

definition indexOf :: "jsstring \<Rightarrow> jsstring \<Rightarrow> int" where
  "indexOf s needle = indexOfFrom needle s 0"

text \<open>
  \<open>String.prototype.substring(start, end)\<close> clamps both indices to \<open>[0, length]\<close> and swaps
  them when \<open>start > end\<close>; with one argument the end is the length.
\<close>

definition substring :: "jsstring \<Rightarrow> int \<Rightarrow> int \<Rightarrow> jsstring" where
  "substring s start fin =
     (let n = int (length s);
          a = max 0 (min start n);
          b = max 0 (min fin n);
          lo = min a b;
          hi = max a b
      in take (nat (hi - lo)) (drop (nat lo) s))"

definition substringFrom :: "jsstring \<Rightarrow> int \<Rightarrow> jsstring" where
  "substringFrom s start = substring s start (int (length s))"

text \<open>Character classes of the regular expressions in the source.\<close>

definition isAsciiLetter :: "nat \<Rightarrow> bool" where
  "isAsciiLetter c = ((65 \<le> c \<and> c \<le> 90) \<or> (97 \<le> c \<and> c \<le> 122))"

definition isAsciiDigit :: "nat \<Rightarrow> bool" where
  "isAsciiDigit c = (48 \<le> c \<and> c \<le> 57)"

text \<open>The class \<open>[a-zA-Z0-9_-]\<close>: 95 is the underscore, 45 the hyphen.\<close>

definition isIdChar :: "nat \<Rightarrow> bool" where
  "isIdChar c = (isAsciiLetter c \<or> isAsciiDigit c \<or> c = 95 \<or> c = 45)"

text \<open>
  The regular expression dot (no \<open>s\<close> flag) matches every code unit except the four line
  terminators LF, CR, U+2028 and U+2029.
\<close>

definition isLineTerminator :: "nat \<Rightarrow> bool" where
  "isLineTerminator c = (c = 10 \<or> c = 13 \<or> c = 8232 \<or> c = 8233)"

definition dotMatches :: "nat \<Rightarrow> bool" where
  "dotMatches c = (\<not> isLineTerminator c)"


section \<open>Numbers\<close>

text \<open>
  A JavaScript number is an IEEE 754 double: a number \<open>m * 2^e\<close> with a whole significand
  \<open>m\<close> of magnitude below \<open>2^53\<close> and an exponent \<open>e\<close> from \<open>-1074\<close> on. An arithmetic operation
  returns the exact result rounded to the nearest double, a tie going to the double with
  the even significand. Whole numbers below \<open>2^53\<close> are doubles, and the counters and the
  millisecond times of the program, which stay whole, are kept exact; the rounding is
  written out where the program computes with fractions.

  \<open>roundBinary p q\<close> rounds a real number to the nearest number with a significand of \<open>p\<close>
  bits and an exponent from \<open>-q\<close> on. The numbers around \<open>x\<close> are \<open>2^s / 2^q\<close> apart, where
  \<open>s = ulpShift p q x\<close> is read off the bit length of the whole part of \<open>|x| * 2^q\<close> (it is 0
  for a subnormal \<open>x\<close>). The largest double is not modelled: the one large product of the
  program is capped by a finite bound, which treats \<open>Infinity\<close> and a large number alike.
\<close>

fun bitLength :: "nat \<Rightarrow> nat" where
  "bitLength n = (if n = 0 then 0 else Suc (bitLength (n div 2)))"

declare bitLength.simps [simp del]

definition roundTiesToEven :: "real \<Rightarrow> int" where
  "roundTiesToEven x =
     (let n = \<lfloor>x\<rfloor>;
          d = x - of_int n
      in if d < 1 / 2 then n
         else if 1 / 2 < d then n + 1
         else if even n then n else n + 1)"

definition ulpShift :: "nat \<Rightarrow> nat \<Rightarrow> real \<Rightarrow> nat" where
  "ulpShift p q x = bitLength (nat \<lfloor>\<bar>x\<bar> * 2 ^ q\<rfloor>) - p"

definition roundBinary :: "nat \<Rightarrow> nat \<Rightarrow> real \<Rightarrow> real" where
  "roundBinary p q x =
     (let s = ulpShift p q x
      in of_int (roundTiesToEven (x * 2 ^ q / 2 ^ s)) * 2 ^ s / 2 ^ q)"

definition double :: "real \<Rightarrow> real" where
  "double x = roundBinary 53 1074 x"


section \<open>Router: namespacing (core/router.ts)\<close>

definition NAMESPACE_SEPARATOR :: jsstring where
  "NAMESPACE_SEPARATOR = js ''__''"

record ParsedName =
  serverId :: jsstring
  originalName :: jsstring

definition createNamespacedName :: "jsstring \<Rightarrow> jsstring \<Rightarrow> jsstring" where
  "createNamespacedName sid name = sid @ NAMESPACE_SEPARATOR @ name"

text \<open>An empty string is falsy, so \<open>!serverId || !originalName\<close> tests emptiness.\<close>

definition parseNamespacedName :: "jsstring \<Rightarrow> ParsedName option" where
  "parseNamespacedName namespacedName =
     (let separatorIndex = indexOf namespacedName NAMESPACE_SEPARATOR
      in if separatorIndex = - 1 then None
         else
           let sid = substring namespacedName 0 separatorIndex;
               orig = substringFrom namespacedName
                        (separatorIndex + int (length NAMESPACE_SEPARATOR))
           in if sid = [] \<or> orig = [] then None
              else Some \<lparr>serverId = sid, originalName = orig\<rparr>)"

definition createNamespacedUri :: "jsstring \<Rightarrow> jsstring \<Rightarrow> jsstring" where
  "createNamespacedUri sid uri = sid @ js ''://'' @ uri"

text \<open>
  \<open>namespacedUri.match(/^([a-zA-Z][a-zA-Z0-9_-]*):\/\/(.+)$/)\<close>. The first group is a letter
  followed by a greedy run of identifier characters. The colon that must follow is not an
  identifier character, so the only run after which the rest of the pattern can match is
  the longest one and backtracking finds nothing else. The second group is the whole
  remainder, which has to be non-empty and free of line terminators because the pattern
  is anchored at the end and carries neither the \<open>s\<close> nor the \<open>m\<close> flag.
\<close>

definition parseNamespacedUri :: "jsstring \<Rightarrow> ParsedName option" where
  "parseNamespacedUri namespacedUri =
     (case namespacedUri of
        [] \<Rightarrow> None
      | c # cs \<Rightarrow>
          if isAsciiLetter c then
            (let run = takeWhile isIdChar cs;
                 rest = dropWhile isIdChar cs
             in if prefix (js ''://'') rest then
                  (let tail = drop 3 rest
                   in if tail \<noteq> [] \<and> list_all dotMatches tail
                      then Some \<lparr>serverId = c # run, originalName = tail\<rparr>
                      else None)
                else None)
          else None)"

text \<open>
  The identifier pattern \<open>^[A-Za-z][A-Za-z0-9_-]{0,63}$\<close>, which is also what the
  configuration schema admits (\<open>min(1)\<close>, \<open>max(64)\<close> and the same character classes).
\<close>

definition validServerId :: "jsstring \<Rightarrow> bool" where
  "validServerId s =
     (case s of
        [] \<Rightarrow> False
      | c # cs \<Rightarrow> isAsciiLetter c \<and> list_all isIdChar cs \<and> length cs \<le> 63)"

text \<open>Whether two adjacent underscores occur in a string, and whether it ends in one.\<close>

fun containsDoubleUnderscore :: "jsstring \<Rightarrow> bool" where
  "containsDoubleUnderscore (a # b # cs) =
     ((a = 95 \<and> b = 95) \<or> containsDoubleUnderscore (b # cs))"
| "containsDoubleUnderscore [a] = False"
| "containsDoubleUnderscore [] = False"

definition endsWithUnderscore :: "jsstring \<Rightarrow> bool" where
  "endsWithUnderscore s = (s \<noteq> [] \<and> last s = 95)"


section \<open>JSON values and JSON-RPC messages (adapters/base.ts)\<close>

text \<open>
  A parsed JSON value. An object is the list of its members in insertion order; a property
  is read with \<open>map_of\<close>, and an absent property (\<open>undefined\<close>) is \<open>None\<close>.
\<close>

datatype json =
    JNull
  | JBool bool
  | JNum real
  | JStr jsstring
  | JArr "json list"
  | JObj "(jsstring \<times> json) list"

text \<open>
  The envelope types of the source. The constant member \<open>jsonrpc: '2.0'\<close> is left out.
  An identifier is typed \<open>string | number\<close>, the request schema also admits \<open>null\<close>, and
  the error replies of the HTTP layer echo whatever the body carried, so an identifier is
  a JSON value.
\<close>

record JsonRpcRequest =
  req_id :: json
  req_method :: jsstring
  req_params :: "json option"

record RpcError =
  code :: int
  message :: jsstring
  data :: "json option"

record JsonRpcResponse =
  resp_id :: json
  result :: "json option"
  error :: "RpcError option"

datatype AdapterHealth = Healthy | Unhealthy | Starting | Stopped

record MCPTool =
  tool_name :: jsstring
  tool_description :: "jsstring option"
  inputSchema :: json

record MCPResource =
  resource_uri :: jsstring
  resource_name :: jsstring
  resource_description :: "jsstring option"
  mimeType :: "jsstring option"

record MCPPrompt =
  prompt_name :: jsstring
  prompt_description :: "jsstring option"
  prompt_arguments :: "json option"

record ServerInfo =
  info_name :: jsstring
  info_version :: jsstring

record ServerCapabilities =
  tools :: "MCPTool list option"
  resources :: "MCPResource list option"
  prompts :: "MCPPrompt list option"
  serverInfo :: "ServerInfo option"

record AdapterStats =
  requestCount :: int
  errorCount :: int
  lastRequestTime :: "int option"
  lastErrorTime :: "int option"
  avgResponseTime :: real
  uptime :: int

text \<open>
  The fields of \<open>ServerConfig\<close> that the adapter and the registry read. Times are
  milliseconds; \<open>srv_timeout\<close> is the per-request timeout.
\<close>

datatype Transport = Stdio | SSE

record ServerConfig =
  srv_id :: jsstring
  transport :: Transport
  srv_enabled :: bool
  lazyLoad :: bool
  srv_timeout :: int
  srv_maxRetries :: int

record RetryState =
  count :: nat
  rs_maxRetries :: int
  rs_baseDelay :: real
  rs_maxDelay :: real
  nextRetryTime :: int

record RetryConfig =
  enabled :: bool
  maxRetries :: nat
  baseDelay :: real
  maxDelay :: real
  jitterFraction :: real

datatype CircuitState = Closed | Open | HalfOpen

record CircuitBreakerConfig =
  failureThreshold :: int
  successThreshold :: int
  timeout :: int
  volumeThreshold :: int

record CircuitBreakerStats =
  consecutiveFailures :: int
  consecutiveSuccesses :: int
  totalRequests :: int
  lastStateChange :: int
  lastOpenTime :: int

text \<open>
  The state of a \<open>BaseAdapter\<close>. \<open>pendingRequests\<close> maps a request id to the start time of
  its entry (the awaiter and the timer of an entry are control flow, modelled by the
  outcome of the request). The transport behind the abstract methods is represented by
  two fields: \<open>isConnected\<close>, the answer of \<open>isConnected()\<close>, and \<open>sendRawCalls\<close>, the
  messages handed to \<open>sendRaw\<close> so far, oldest first (a message is the request whose
  serialisation \<open>JSON.stringify(request) + '\n'\<close> is written). \<open>emitted\<close> collects the
  events the adapter emits. Dates are their epoch milliseconds. The counters are
  JavaScript numbers, exact below \<open>2^53\<close>; they are unbounded integers here.
\<close>

record Adapter =
  config :: ServerConfig
  health :: AdapterHealth
  capabilities :: "ServerCapabilities option"
  startTime :: "int option"
  stats :: AdapterStats
  pendingRequests :: "(int \<times> int) list"
  nextRequestId :: int
  retryState :: RetryState
  retryConfig :: RetryConfig
  circuitBreakerState :: CircuitState
  circuitBreakerConfig :: CircuitBreakerConfig
  circuitBreakerStats :: CircuitBreakerStats
  isConnected :: bool
  sendRawCalls :: "JsonRpcRequest list"
  emitted :: "jsstring list"

text \<open>
  The field initialisers of the class, for an adapter built at time \<open>now\<close>. The literal
  \<open>0.1\<close> denotes the double nearest to one tenth.
\<close>

definition defaultRetryConfig :: RetryConfig where
  "defaultRetryConfig =
     \<lparr>enabled = True, maxRetries = 3, baseDelay = 1000, maxDelay = 30000,
      jitterFraction = double (1 / 10)\<rparr>"

definition defaultCircuitBreakerConfig :: CircuitBreakerConfig where
  "defaultCircuitBreakerConfig =
     \<lparr>failureThreshold = 5, successThreshold = 2, timeout = 30000, volumeThreshold = 10\<rparr>"

definition newAdapter :: "ServerConfig \<Rightarrow> int \<Rightarrow> Adapter" where
  "newAdapter cfg now =
     \<lparr>config = cfg,
      health = Stopped,
      capabilities = None,
      startTime = None,
      stats = \<lparr>requestCount = 0, errorCount = 0, lastRequestTime = None,
               lastErrorTime = None, avgResponseTime = 0, uptime = 0\<rparr>,
      pendingRequests = [],
      nextRequestId = 1,
      retryState = \<lparr>count = 0, rs_maxRetries = 3, rs_baseDelay = 1000, rs_maxDelay = 30000,
                    nextRetryTime = 0\<rparr>,
      retryConfig = defaultRetryConfig,
      circuitBreakerState = Closed,
      circuitBreakerConfig = defaultCircuitBreakerConfig,
      circuitBreakerStats = \<lparr>consecutiveFailures = 0, consecutiveSuccesses = 0,
                             totalRequests = 0, lastStateChange = now, lastOpenTime = 0\<rparr>,
      isConnected = False,
      sendRawCalls = [],
      emitted = []\<rparr>"

text \<open>A JavaScript \<open>Map\<close> keeps insertion order; \<open>set\<close> on a present key keeps its place.\<close>

fun mapSet :: "('k \<times> 'v) list \<Rightarrow> 'k \<Rightarrow> 'v \<Rightarrow> ('k \<times> 'v) list" where
  "mapSet [] k v = [(k, v)]"
| "mapSet ((k', v') # m) k v = (if k' = k then (k, v) # m else (k', v') # mapSet m k v)"

fun mapDelete :: "('k \<times> 'v) list \<Rightarrow> 'k \<Rightarrow> ('k \<times> 'v) list" where
  "mapDelete [] k = []"
| "mapDelete ((k', v') # m) k = (if k' = k then m else (k', v') # mapDelete m k)"

definition mapHas :: "('k \<times> 'v) list \<Rightarrow> 'k \<Rightarrow> bool" where
  "mapHas m k = (case map_of m k of None \<Rightarrow> False | Some v \<Rightarrow> True)"


section \<open>Base adapter: request ids and the circuit breaker\<close>

definition generateRequestId :: "Adapter \<Rightarrow> int \<times> Adapter" where
  "generateRequestId a = (nextRequestId a, a\<lparr>nextRequestId := nextRequestId a + 1\<rparr>)"

text \<open>
  \<open>isCircuitBreakerOpen\<close> at time \<open>now\<close> (\<open>Date.now()\<close>): the answer and the adapter after
  it, since an elapsed recovery timeout moves an open breaker to half-open.
\<close>

definition isCircuitBreakerOpen :: "Adapter \<Rightarrow> int \<Rightarrow> bool \<times> Adapter" where
  "isCircuitBreakerOpen a now =
     (case circuitBreakerState a of
        Closed \<Rightarrow> (False, a)
      | Open \<Rightarrow>
          (let timeSinceOpen = now - lastStateChange (circuitBreakerStats a)
           in if timeSinceOpen \<ge> timeout (circuitBreakerConfig a)
              then (False,
                    a\<lparr>circuitBreakerState := HalfOpen,
                      circuitBreakerStats :=
                        (circuitBreakerStats a)\<lparr>consecutiveSuccesses := 0\<rparr>\<rparr>)
              else (True, a))
      | HalfOpen \<Rightarrow> (False, a))"

definition recordSuccess :: "Adapter \<Rightarrow> int \<Rightarrow> Adapter" where
  "recordSuccess a now =
     (let st = (circuitBreakerStats a)
                 \<lparr>totalRequests := totalRequests (circuitBreakerStats a) + 1,
                  consecutiveFailures := 0,
                  consecutiveSuccesses := consecutiveSuccesses (circuitBreakerStats a) + 1\<rparr>;
          a1 = a\<lparr>circuitBreakerStats := st\<rparr>
      in if circuitBreakerState a1 = HalfOpen then
           (if consecutiveSuccesses st \<ge> successThreshold (circuitBreakerConfig a1)
            then a1\<lparr>circuitBreakerState := Closed,
                    circuitBreakerStats := st\<lparr>lastStateChange := now\<rparr>\<rparr>
            else a1)
         else a1)"

definition recordFailure :: "Adapter \<Rightarrow> int \<Rightarrow> Adapter" where
  "recordFailure a now =
     (let st = (circuitBreakerStats a)
                 \<lparr>totalRequests := totalRequests (circuitBreakerStats a) + 1,
                  consecutiveFailures := consecutiveFailures (circuitBreakerStats a) + 1,
                  consecutiveSuccesses := 0\<rparr>;
          a1 = a\<lparr>circuitBreakerStats := st\<rparr>;
          volumeThresholdMet = (totalRequests st \<ge> volumeThreshold (circuitBreakerConfig a1));
          failureThresholdExceeded =
            (consecutiveFailures st \<ge> failureThreshold (circuitBreakerConfig a1))
      in if volumeThresholdMet \<and> failureThresholdExceeded then
           (if circuitBreakerState a1 \<noteq> Open
            then a1\<lparr>circuitBreakerState := Open,
                    circuitBreakerStats := st\<lparr>lastStateChange := now, lastOpenTime := now\<rparr>,
                    health := Unhealthy\<rparr>
            else a1)
         else a1)"

definition circuitStateName :: "CircuitState \<Rightarrow> jsstring" where
  "circuitStateName s =
     (case s of Closed \<Rightarrow> js ''closed'' | Open \<Rightarrow> js ''open'' | HalfOpen \<Rightarrow> js ''half-open'')"

definition getCircuitBreakerStatus :: "Adapter \<Rightarrow> json" where
  "getCircuitBreakerStatus a =
     JObj [(js ''state'', JStr (circuitStateName (circuitBreakerState a))),
           (js ''stats'',
            JObj [(js ''consecutiveFailures'',
                     JNum (of_int (consecutiveFailures (circuitBreakerStats a)))),
                  (js ''consecutiveSuccesses'',
                     JNum (of_int (consecutiveSuccesses (circuitBreakerStats a)))),
                  (js ''totalRequests'', JNum (of_int (totalRequests (circuitBreakerStats a)))),
                  (js ''lastStateChange'',
                     JNum (of_int (lastStateChange (circuitBreakerStats a))))]),
           (js ''config'',
            JObj [(js ''failureThreshold'',
                     JNum (of_int (failureThreshold (circuitBreakerConfig a)))),
                  (js ''successThreshold'',
                     JNum (of_int (successThreshold (circuitBreakerConfig a)))),
                  (js ''timeout'', JNum (of_int (timeout (circuitBreakerConfig a))))])]"

text \<open>
  The three operations that write \<open>circuitBreakerState\<close>, as events of the breaker.
\<close>

datatype BreakerEvent = Check | Success | Failure

definition breakerStep :: "BreakerEvent \<Rightarrow> int \<Rightarrow> Adapter \<Rightarrow> Adapter" where
  "breakerStep ev now a =
     (case ev of
        Check \<Rightarrow> snd (isCircuitBreakerOpen a now)
      | Success \<Rightarrow> recordSuccess a now
      | Failure \<Rightarrow> recordFailure a now)"

text \<open>A run of the breaker: events with the times at which they happen, oldest first.\<close>

fun breakerRun :: "(BreakerEvent \<times> int) list \<Rightarrow> Adapter \<Rightarrow> Adapter" where
  "breakerRun [] a = a"
| "breakerRun ((ev, now) # evs) a = breakerRun evs (breakerStep ev now a)"


section \<open>Base adapter: sending a request\<close>

text \<open>Decimal rendering of an integer, as a template literal renders a whole number.\<close>

fun natDigits :: "nat \<Rightarrow> jsstring" where
  "natDigits n = (if n < 10 then [48 + n] else natDigits (n div 10) @ [48 + n mod 10])"

declare natDigits.simps [simp del]

definition decimal :: "int \<Rightarrow> jsstring" where
  "decimal i = (if i < 0 then 45 # natDigits (nat (- i)) else natDigits (nat i))"

text \<open>
  What the transport and the backend do with one request: \<open>sendRaw\<close> rejects with an error,
  or the message is written and no matching reply arrives, or a message arrives at a given
  time. A thrown \<open>Error\<close> is its message; a promise that rejects is \<open>Inl\<close> of the message
  and one that resolves is \<open>Inr\<close> of the value.
\<close>

datatype TransportOutcome =
    SendFails jsstring
  | NoReply
  | Reply int JsonRpcResponse

text \<open>\<open>this.config.timeout || 60000\<close>: zero is falsy.\<close>

definition effectiveTimeout :: "Adapter \<Rightarrow> int" where
  "effectiveTimeout a = (if srv_timeout (config a) = 0 then 60000 else srv_timeout (config a))"

text \<open>
  The body shared by the deadline timer and the \<open>catch\<close> of \<open>sendRaw\<close>: the entry is
  deleted, the error statistics are updated and the breaker records a failure.
\<close>

definition failPending :: "Adapter \<Rightarrow> int \<Rightarrow> int \<Rightarrow> Adapter" where
  "failPending a rid now =
     recordFailure
       (a\<lparr>pendingRequests := mapDelete (pendingRequests a) rid,
          stats := (stats a)\<lparr>errorCount := errorCount (stats a) + 1,
                             lastErrorTime := Some now\<rparr>\<rparr>)
       now"

text \<open>
  The key of the pending entry that \<open>pendingRequests.get(message.id)\<close> finds: the keys are
  the numbers handed out by \<open>generateRequestId\<close>, so only a numeric identifier with a whole
  value can match.
\<close>

definition pendingFor :: "Adapter \<Rightarrow> json \<Rightarrow> (int \<times> int) option" where
  "pendingFor a mid =
     (case mid of
        JNum r \<Rightarrow>
          (if r = of_int (floor r) then
             (case map_of (pendingRequests a) (floor r) of
                None \<Rightarrow> None
              | Some started \<Rightarrow> Some (floor r, started))
           else None)
      | _ \<Rightarrow> None)"

text \<open>
  \<open>handleMessage\<close> on a parsed message read as a response, at time \<open>now\<close>: the response the
  awaiter is resolved with, if an entry matches, and the adapter afterwards. A message
  that matches no entry leaves the adapter as it is (the notification event of a message
  with a \<open>method\<close> member is not modelled).
\<close>

definition handleMessage :: "Adapter \<Rightarrow> int \<Rightarrow> JsonRpcResponse \<Rightarrow> JsonRpcResponse option \<times> Adapter" where
  "handleMessage a now msg =
     (case pendingFor a (resp_id msg) of
        None \<Rightarrow> (None, a)
      | Some (rid, started) \<Rightarrow>
          (let n = requestCount (stats a) + 1;
               responseTime = now - started;
               st = (stats a)
                      \<lparr>requestCount := n,
                       lastRequestTime := Some now,
                       avgResponseTime :=
                         (avgResponseTime (stats a) * of_int (n - 1) + of_int responseTime)
                           / of_int n\<rparr>;
               a1 = a\<lparr>pendingRequests := mapDelete (pendingRequests a) rid, stats := st\<rparr>;
               a2 = (case error msg of
                       Some e \<Rightarrow>
                         recordFailure
                           (a1\<lparr>stats := st\<lparr>errorCount := errorCount st + 1,
                                             lastErrorTime := Some now\<rparr>\<rparr>)
                           now
                     | None \<Rightarrow> recordSuccess a1 now)
           in (Some msg, a2)))"

definition circuitOpenResponse :: "int \<Rightarrow> Adapter \<Rightarrow> JsonRpcResponse" where
  "circuitOpenResponse rid a =
     \<lparr>resp_id = JNum (of_int rid),
      result = None,
      error = Some
        \<lparr>code = - 32603,
         message = js ''Circuit breaker is open'',
         data = Some (JObj
           [(js ''reason'',
             JStr (js ''Server is experiencing failures, requests rejected to prevent cascading failure'')),
            (js ''circuitBreakerStatus'', getCircuitBreakerStatus a)])\<rparr>\<rparr>"

definition timeoutMessage :: "int \<Rightarrow> jsstring \<Rightarrow> jsstring" where
  "timeoutMessage t method =
     js ''Request timeout after '' @ decimal t @ js ''ms for method: '' @ method"

text \<open>
  \<open>sendRequest(method, params)\<close> called at time \<open>now\<close>, awaited to its end. \<open>backend\<close> says
  what the transport does with the request. A reply counts when it arrives before the
  deadline and matches the pending entry; otherwise the deadline timer fires at
  \<open>now + timeout\<close>.
\<close>

definition sendRequest ::
  "Adapter \<Rightarrow> int \<Rightarrow> (JsonRpcRequest \<Rightarrow> TransportOutcome) \<Rightarrow> jsstring \<Rightarrow> json option
     \<Rightarrow> (jsstring + JsonRpcResponse) \<times> Adapter" where
  "sendRequest a now backend method params =
     (case isCircuitBreakerOpen a now of
        (True, a1) \<Rightarrow>
          (let a2 = recordFailure a1 now;
               (rid, a3) = generateRequestId a2
           in (Inr (circuitOpenResponse rid a3), a3))
      | (False, a1) \<Rightarrow>
          (let (rid, a2) = generateRequestId a1;
               request = \<lparr>req_id = JNum (of_int rid), req_method = method, req_params = params\<rparr>;
               t = effectiveTimeout a2;
               a3 = a2\<lparr>pendingRequests := mapSet (pendingRequests a2) rid now\<rparr>;
               a4 = a3\<lparr>sendRawCalls := sendRawCalls a3 @ [request]\<rparr>;
               timedOut = (Inl (timeoutMessage t method), failPending a4 rid (now + t))
           in case backend request of
                SendFails err \<Rightarrow> (Inl err, failPending a4 rid now)
              | NoReply \<Rightarrow> timedOut
              | Reply arrival msg \<Rightarrow>
                  (if arrival < now + t then
                     (case handleMessage a4 arrival msg of
                        (Some response, a5) \<Rightarrow> (Inr response, a5)
                      | (None, a5) \<Rightarrow> timedOut)
                   else timedOut)))"

definition callTool ::
  "Adapter \<Rightarrow> int \<Rightarrow> (JsonRpcRequest \<Rightarrow> TransportOutcome) \<Rightarrow> jsstring \<Rightarrow> json
     \<Rightarrow> (jsstring + JsonRpcResponse) \<times> Adapter" where
  "callTool a now backend name args =
     sendRequest a now backend (js ''tools/call'')
       (Some (JObj [(js ''name'', JStr name), (js ''arguments'', args)]))"

definition readResource ::
  "Adapter \<Rightarrow> int \<Rightarrow> (JsonRpcRequest \<Rightarrow> TransportOutcome) \<Rightarrow> jsstring
     \<Rightarrow> (jsstring + JsonRpcResponse) \<times> Adapter" where
  "readResource a now backend u =
     sendRequest a now backend (js ''resources/read'') (Some (JObj [(js ''uri'', JStr u)]))"

text \<open>An \<open>undefined\<close> member is dropped by \<open>JSON.stringify\<close>.\<close>

definition getPrompt ::
  "Adapter \<Rightarrow> int \<Rightarrow> (JsonRpcRequest \<Rightarrow> TransportOutcome) \<Rightarrow> jsstring \<Rightarrow> json option
     \<Rightarrow> (jsstring + JsonRpcResponse) \<times> Adapter" where
  "getPrompt a now backend name args =
     sendRequest a now backend (js ''prompts/get'')
       (Some (JObj ((js ''name'', JStr name) #
                    (case args of None \<Rightarrow> [] | Some v \<Rightarrow> [(js ''arguments'', v)]))))"


section \<open>Base adapter: retry with exponential backoff\<close>

text \<open>
  \<open>getBackoffDelay()\<close>, with \<open>r\<close> the value \<open>Math.random()\<close> returns, a number in \<open>[0, 1)\<close>.
  Each product and the sum are rounded to a double, in the order in which the source
  computes them. \<open>Math.pow(2, count)\<close> is a power of two and exact, \<open>Math.min\<close> is exact,
  and \<open>Math.round\<close> gives the nearest whole number, a half going up, as \<open>round\<close> does. With
  the base delay of 1000 the product of the source is \<open>Infinity\<close> from count 1015 on and
  here a number above the cap: \<open>Math.min\<close> returns the cap for both.
\<close>

definition getBackoffDelay :: "Adapter \<Rightarrow> real \<Rightarrow> int" where
  "getBackoffDelay a r =
     (if \<not> enabled (retryConfig a) then 0
      else
        (let exponentialDelay = double (baseDelay (retryConfig a) * 2 ^ count (retryState a));
             jitter = double (r * double (baseDelay (retryConfig a)
                                            * jitterFraction (retryConfig a)));
             totalDelay = double (exponentialDelay + jitter);
             cappedDelay = min totalDelay (maxDelay (retryConfig a))
         in round cappedDelay))"

definition resetRetryState :: "Adapter \<Rightarrow> Adapter" where
  "resetRetryState a =
     a\<lparr>retryState :=
         \<lparr>count = 0,
          rs_maxRetries = (if srv_maxRetries (config a) = 0 then 3 else srv_maxRetries (config a)),
          rs_baseDelay = baseDelay (retryConfig a),
          rs_maxDelay = maxDelay (retryConfig a),
          nextRetryTime = 0\<rparr>\<rparr>"



section \<open>Registry (core/registry.ts)\<close>

text \<open>
  The registry's \<open>adapters\<close> map, in insertion order. An adapter is a mutable object held
  by reference; here a method that changes an adapter writes the new state back under
  its key, which keeps the entry's place.
\<close>

record Registry =
  adapters :: "(jsstring \<times> Adapter) list"

text \<open>
  The abstract \<open>start()\<close> of an adapter is supplied by the transport: it returns the adapter
  after the attempt and the error it threw, if it threw.
\<close>

type_synonym StartFn = "Adapter \<Rightarrow> jsstring option \<times> Adapter"

definition quoted :: "jsstring \<Rightarrow> jsstring" where
  "quoted s = [39] @ s @ [39]"

definition registerServer ::
  "Registry \<Rightarrow> StartFn \<Rightarrow> int \<Rightarrow> ServerConfig \<Rightarrow> jsstring + Registry" where
  "registerServer reg start now cfg =
     (if mapHas (adapters reg) (srv_id cfg)
      then Inl (js ''Server with ID '' @ quoted (srv_id cfg) @ js '' is already registered'')
      else
        (let adapter = newAdapter cfg now;
             reg1 = reg\<lparr>adapters := mapSet (adapters reg) (srv_id cfg) adapter\<rparr>
         in if \<not> lazyLoad cfg \<and> srv_enabled cfg
            then (case start adapter of
                    (err, adapter') \<Rightarrow>
                      Inr (reg1\<lparr>adapters := mapSet (adapters reg1) (srv_id cfg) adapter'\<rparr>))
            else Inr reg1))"

definition getAdapterEnsureStarted ::
  "Registry \<Rightarrow> StartFn \<Rightarrow> jsstring \<Rightarrow> (jsstring + Adapter) \<times> Registry" where
  "getAdapterEnsureStarted reg start sid =
     (case map_of (adapters reg) sid of
        None \<Rightarrow> (Inl (js ''Server '' @ quoted sid @ js '' not found''), reg)
      | Some adapter \<Rightarrow>
          if \<not> isConnected adapter then
            (case start adapter of
               (Some err, adapter') \<Rightarrow>
                 (Inl err, reg\<lparr>adapters := mapSet (adapters reg) sid adapter'\<rparr>)
             | (None, adapter') \<Rightarrow>
                 (Inr adapter', reg\<lparr>adapters := mapSet (adapters reg) sid adapter'\<rparr>))
          else (Inr adapter, reg))"

definition getServerIds :: "Registry \<Rightarrow> jsstring list" where
  "getServerIds reg = map fst (adapters reg)"

record ToolEntry =
  tool_serverId :: jsstring
  tool :: MCPTool

record ResourceEntry =
  resource_serverId :: jsstring
  resource :: MCPResource

record PromptEntry =
  prompt_serverId :: jsstring
  prompt :: MCPPrompt

record MergedCapabilities =
  merged_tools :: "ToolEntry list"
  merged_resources :: "ResourceEntry list"
  merged_prompts :: "PromptEntry list"

text \<open>\<open>for (const x of xs) acc.push(f(x))\<close>.\<close>

fun pushAll :: "('a \<Rightarrow> 'b) \<Rightarrow> 'a list \<Rightarrow> 'b list \<Rightarrow> 'b list" where
  "pushAll f [] acc = acc"
| "pushAll f (x # xs) acc = pushAll f xs (acc @ [f x])"

text \<open>
  The loop of \<open>getMergedCapabilities\<close> over the entries of the map, with the three arrays
  it fills. A capability list is tested for presence; an empty array is truthy.
\<close>

fun mergeLoop :: "(jsstring \<times> Adapter) list \<Rightarrow> MergedCapabilities \<Rightarrow> MergedCapabilities" where
  "mergeLoop [] acc = acc"
| "mergeLoop ((sid, adapter) # rest) acc =
     (if health adapter \<noteq> Healthy then mergeLoop rest acc
      else
        (case capabilities adapter of
           None \<Rightarrow> mergeLoop rest acc
         | Some caps \<Rightarrow>
             (let acc1 = (case tools caps of
                            None \<Rightarrow> acc
                          | Some ts \<Rightarrow>
                              acc\<lparr>merged_tools :=
                                    pushAll (\<lambda>t. \<lparr>tool_serverId = sid, tool = t\<rparr>) ts
                                      (merged_tools acc)\<rparr>);
                  acc2 = (case resources caps of
                            None \<Rightarrow> acc1
                          | Some rs \<Rightarrow>
                              acc1\<lparr>merged_resources :=
                                     pushAll (\<lambda>r. \<lparr>resource_serverId = sid, resource = r\<rparr>) rs
                                       (merged_resources acc1)\<rparr>);
                  acc3 = (case prompts caps of
                            None \<Rightarrow> acc2
                          | Some ps \<Rightarrow>
                              acc2\<lparr>merged_prompts :=
                                     pushAll (\<lambda>p. \<lparr>prompt_serverId = sid, prompt = p\<rparr>) ps
                                       (merged_prompts acc2)\<rparr>)
              in mergeLoop rest acc3)))"

definition getMergedCapabilities :: "Registry \<Rightarrow> MergedCapabilities" where
  "getMergedCapabilities reg =
     mergeLoop (adapters reg)
       \<lparr>merged_tools = [], merged_resources = [], merged_prompts = []\<rparr>"

text \<open>
  The words of the specification, to compare the loop with: the cached entries of an
  adapter, and the adapters that are healthy, in the order of the map.
\<close>

definition cachedTools :: "Adapter \<Rightarrow> MCPTool list" where
  "cachedTools a =
     (case capabilities a of
        None \<Rightarrow> []
      | Some caps \<Rightarrow> (case tools caps of None \<Rightarrow> [] | Some ts \<Rightarrow> ts))"

definition cachedResources :: "Adapter \<Rightarrow> MCPResource list" where
  "cachedResources a =
     (case capabilities a of
        None \<Rightarrow> []
      | Some caps \<Rightarrow> (case resources caps of None \<Rightarrow> [] | Some rs \<Rightarrow> rs))"

definition cachedPrompts :: "Adapter \<Rightarrow> MCPPrompt list" where
  "cachedPrompts a =
     (case capabilities a of
        None \<Rightarrow> []
      | Some caps \<Rightarrow> (case prompts caps of None \<Rightarrow> [] | Some ps \<Rightarrow> ps))"

definition healthyAdapters :: "Registry \<Rightarrow> (jsstring \<times> Adapter) list" where
  "healthyAdapters reg = filter (\<lambda>(sid, a). health a = Healthy) (adapters reg)"

definition toolsOf :: "jsstring \<times> Adapter \<Rightarrow> ToolEntry list" where
  "toolsOf e = map (\<lambda>t. \<lparr>tool_serverId = fst e, tool = t\<rparr>) (cachedTools (snd e))"

definition resourcesOf :: "jsstring \<times> Adapter \<Rightarrow> ResourceEntry list" where
  "resourcesOf e =
     map (\<lambda>r. \<lparr>resource_serverId = fst e, resource = r\<rparr>) (cachedResources (snd e))"

definition promptsOf :: "jsstring \<times> Adapter \<Rightarrow> PromptEntry list" where
  "promptsOf e = map (\<lambda>p. \<lparr>prompt_serverId = fst e, prompt = p\<rparr>) (cachedPrompts (snd e))"


section \<open>Router: routing (core/router.ts)\<close>

definition errorResponse :: "int \<Rightarrow> jsstring \<Rightarrow> json option \<Rightarrow> JsonRpcResponse" where
  "errorResponse c m d =
     \<lparr>resp_id = JNum 0, result = None, error = Some \<lparr>code = c, message = m, data = d\<rparr>\<rparr>"

definition correlationData :: "jsstring \<Rightarrow> json option" where
  "correlationData correlationId = Some (JObj [(js ''correlationId'', JStr correlationId)])"

definition notHealthy :: "jsstring \<Rightarrow> JsonRpcResponse" where
  "notHealthy sid =
     errorResponse (- 32000) (js ''Server '' @ quoted sid @ js '' is not healthy'') None"

text \<open>
  \<open>routeToolCall(namespacedName, args)\<close> at time \<open>now\<close>. \<open>start\<close> and \<open>backend\<close> are the
  transport of the adapter addressed, \<open>correlationId\<close> the value drawn by
  \<open>generateCorrelationId()\<close>. The result is the response and the registry afterwards.
\<close>

definition routeToolCall ::
  "Registry \<Rightarrow> StartFn \<Rightarrow> (JsonRpcRequest \<Rightarrow> TransportOutcome) \<Rightarrow> int \<Rightarrow> jsstring
     \<Rightarrow> jsstring \<Rightarrow> json \<Rightarrow> JsonRpcResponse \<times> Registry" where
  "routeToolCall reg start backend now correlationId namespacedName args =
     (case parseNamespacedName namespacedName of
        None \<Rightarrow>
          (errorResponse (- 32602)
             (js ''Invalid tool name format: '' @ namespacedName
                @ js ''. Expected format: serverId'' @ NAMESPACE_SEPARATOR @ js ''toolName'')
             None,
           reg)
      | Some parsed \<Rightarrow>
          (case getAdapterEnsureStarted reg start (serverId parsed) of
             (Inl err, reg1) \<Rightarrow>
               (errorResponse (- 32000) err (correlationData correlationId), reg1)
           | (Inr adapter, reg1) \<Rightarrow>
               if health adapter \<noteq> Healthy then (notHealthy (serverId parsed), reg1)
               else
                 (case callTool adapter now backend (originalName parsed) args of
                    (Inl err, adapter') \<Rightarrow>
                      (errorResponse (- 32000) err (correlationData correlationId),
                       reg1\<lparr>adapters := mapSet (adapters reg1) (serverId parsed) adapter'\<rparr>)
                  | (Inr response, adapter') \<Rightarrow>
                      (response,
                       reg1\<lparr>adapters := mapSet (adapters reg1) (serverId parsed) adapter'\<rparr>))))"

definition routeResourceRead ::
  "Registry \<Rightarrow> StartFn \<Rightarrow> (JsonRpcRequest \<Rightarrow> TransportOutcome) \<Rightarrow> int \<Rightarrow> jsstring
     \<Rightarrow> jsstring \<Rightarrow> JsonRpcResponse \<times> Registry" where
  "routeResourceRead reg start backend now correlationId namespacedUri =
     (case parseNamespacedUri namespacedUri of
        None \<Rightarrow>
          (errorResponse (- 32602)
             (js ''Invalid resource URI format: '' @ namespacedUri
                @ js ''. Expected format: serverId://originalUri'')
             None,
           reg)
      | Some parsed \<Rightarrow>
          (case getAdapterEnsureStarted reg start (serverId parsed) of
             (Inl err, reg1) \<Rightarrow>
               (errorResponse (- 32000) err (correlationData correlationId), reg1)
           | (Inr adapter, reg1) \<Rightarrow>
               if health adapter \<noteq> Healthy then (notHealthy (serverId parsed), reg1)
               else
                 (case readResource adapter now backend (originalName parsed) of
                    (Inl err, adapter') \<Rightarrow>
                      (errorResponse (- 32000) err (correlationData correlationId),
                       reg1\<lparr>adapters := mapSet (adapters reg1) (serverId parsed) adapter'\<rparr>)
                  | (Inr response, adapter') \<Rightarrow>
                      (response,
                       reg1\<lparr>adapters := mapSet (adapters reg1) (serverId parsed) adapter'\<rparr>))))"

definition routePromptGet ::
  "Registry \<Rightarrow> StartFn \<Rightarrow> (JsonRpcRequest \<Rightarrow> TransportOutcome) \<Rightarrow> int \<Rightarrow> jsstring
     \<Rightarrow> jsstring \<Rightarrow> json option \<Rightarrow> JsonRpcResponse \<times> Registry" where
  "routePromptGet reg start backend now correlationId namespacedName args =
     (case parseNamespacedName namespacedName of
        None \<Rightarrow>
          (errorResponse (- 32602)
             (js ''Invalid prompt name format: '' @ namespacedName
                @ js ''. Expected format: serverId'' @ NAMESPACE_SEPARATOR @ js ''promptName'')
             None,
           reg)
      | Some parsed \<Rightarrow>
          (case getAdapterEnsureStarted reg start (serverId parsed) of
             (Inl err, reg1) \<Rightarrow>
               (errorResponse (- 32000) err (correlationData correlationId), reg1)
           | (Inr adapter, reg1) \<Rightarrow>
               if health adapter \<noteq> Healthy then (notHealthy (serverId parsed), reg1)
               else
                 (case getPrompt adapter now backend (originalName parsed) args of
                    (Inl err, adapter') \<Rightarrow>
                      (errorResponse (- 32000) err (correlationData correlationId),
                       reg1\<lparr>adapters := mapSet (adapters reg1) (serverId parsed) adapter'\<rparr>)
                  | (Inr response, adapter') \<Rightarrow>
                      (response,
                       reg1\<lparr>adapters := mapSet (adapters reg1) (serverId parsed) adapter'\<rparr>))))"

text \<open>
  A namespaced item is the item with its key rewritten, paired with the two internal
  members \<open>_serverId\<close> and \<open>_originalName\<close> (\<open>_originalUri\<close>); stripping them is \<open>fst\<close>.
\<close>

definition getNamespacedTools :: "Registry \<Rightarrow> (MCPTool \<times> jsstring \<times> jsstring) list" where
  "getNamespacedTools reg =
     map (\<lambda>e. ((tool e)\<lparr>tool_name :=
                      createNamespacedName (tool_serverId e) (tool_name (tool e))\<rparr>,
               tool_serverId e, tool_name (tool e)))
       (merged_tools (getMergedCapabilities reg))"

definition getNamespacedResources :: "Registry \<Rightarrow> (MCPResource \<times> jsstring \<times> jsstring) list" where
  "getNamespacedResources reg =
     map (\<lambda>e. ((resource e)\<lparr>resource_uri :=
                          createNamespacedUri (resource_serverId e) (resource_uri (resource e))\<rparr>,
               resource_serverId e, resource_uri (resource e)))
       (merged_resources (getMergedCapabilities reg))"

definition getNamespacedPrompts :: "Registry \<Rightarrow> (MCPPrompt \<times> jsstring \<times> jsstring) list" where
  "getNamespacedPrompts reg =
     map (\<lambda>e. ((prompt e)\<lparr>prompt_name :=
                        createNamespacedName (prompt_serverId e) (prompt_name (prompt e))\<rparr>,
               prompt_serverId e, prompt_name (prompt e)))
       (merged_prompts (getMergedCapabilities reg))"


section \<open>Gateway (core/gateway.ts)\<close>

text \<open>
  Session times are epoch milliseconds read as real numbers, because the sweep period
  \<open>sessionTimeout / 2\<close> need not be whole.
\<close>

record Session =
  session_id :: jsstring
  createdAt :: real
  lastActivity :: real
  clientInfo :: "(jsstring \<times> jsstring) option"

record GatewayConfig =
  gateway_name :: jsstring
  gateway_version :: jsstring
  sessionTimeout :: real

text \<open>
  What \<open>setInterval\<close> returns: a timer, known by the time at which it was armed and the
  period it was armed with. The field \<open>sessionCleanupInterval\<close> of the gateway holds the
  armed timer, or nothing (\<open>null\<close>).
\<close>

record Timer =
  timer_armedAt :: real
  timer_period :: real

record Gateway =
  gw_config :: GatewayConfig
  registry :: Registry
  sessions :: "(jsstring \<times> Session) list"
  isInitialized :: bool
  sessionCleanupInterval :: "Timer option"
  expired :: "jsstring list"






definition createSession ::
  "Gateway \<Rightarrow> real \<Rightarrow> jsstring \<Rightarrow> (jsstring \<times> jsstring) option \<Rightarrow> Session \<times> Gateway" where
  "createSession gw now uuid info =
     (let session = \<lparr>session_id = uuid, createdAt = now, lastActivity = now, clientInfo = info\<rparr>
      in (session, gw\<lparr>sessions := mapSet (sessions gw) uuid session\<rparr>))"

definition touchSession :: "Gateway \<Rightarrow> jsstring \<Rightarrow> real \<Rightarrow> Gateway" where
  "touchSession gw sid now =
     (case map_of (sessions gw) sid of
        None \<Rightarrow> gw
      | Some session \<Rightarrow>
          gw\<lparr>sessions := mapSet (sessions gw) sid (session\<lparr>lastActivity := now\<rparr>)\<rparr>)"

definition removeSession :: "Gateway \<Rightarrow> jsstring \<Rightarrow> Gateway" where
  "removeSession gw sid = gw\<lparr>sessions := mapDelete (sessions gw) sid\<rparr>"


subsection \<open>Request handling\<close>

text \<open>
  Reading JavaScript values. \<open>None\<close> is \<open>undefined\<close>. A value is falsy when it is
  \<open>undefined\<close>, \<open>null\<close>, \<open>false\<close>, zero or the empty string. Reading a member of
  \<open>undefined\<close> or \<open>null\<close> throws a \<open>TypeError\<close> (the messages are those of V8); reading one
  of the members named in this program from a number, a string, a boolean or an array
  gives \<open>undefined\<close>.
\<close>

definition truthy :: "json option \<Rightarrow> bool" where
  "truthy v =
     (case v of
        None \<Rightarrow> False
      | Some JNull \<Rightarrow> False
      | Some (JBool b) \<Rightarrow> b
      | Some (JNum r) \<Rightarrow> r \<noteq> 0
      | Some (JStr t) \<Rightarrow> t \<noteq> []
      | Some (JArr xs) \<Rightarrow> True
      | Some (JObj m) \<Rightarrow> True)"

definition member :: "json option \<Rightarrow> jsstring \<Rightarrow> jsstring + json option" where
  "member v key =
     (case v of
        None \<Rightarrow>
          Inl (js ''Cannot read properties of undefined (reading '' @ quoted key @ js '')'')
      | Some JNull \<Rightarrow>
          Inl (js ''Cannot read properties of null (reading '' @ quoted key @ js '')'')
      | Some (JObj m) \<Rightarrow> Inr (map_of m key)
      | Some other \<Rightarrow> Inr None)"

text \<open>
  What the handlers take from outside the gateway: the transport of the adapter
  addressed, the correlation identifiers drawn for the request by the gateway and by the
  router, the language's conversion of a value to a string inside a template literal,
  and the issue list the validation library attaches to its error.
\<close>

record Env =
  transportStart :: StartFn
  transportBackend :: "JsonRpcRequest \<Rightarrow> TransportOutcome"
  gatewayCorrelationId :: jsstring
  routerCorrelationId :: jsstring
  stringOf :: "json \<Rightarrow> jsstring"
  zodIssues :: "json option \<Rightarrow> json"

definition PROTOCOL_VERSION :: jsstring where
  "PROTOCOL_VERSION = js ''2024-11-05''"

fun joinWith :: "jsstring \<Rightarrow> jsstring list \<Rightarrow> jsstring" where
  "joinWith sep [] = []"
| "joinWith sep [x] = x"
| "joinWith sep (x # y # ys) = x @ sep @ joinWith sep (y # ys)"

definition optionalMember :: "jsstring \<Rightarrow> jsstring option \<Rightarrow> (jsstring \<times> json) list" where
  "optionalMember key v = (case v of None \<Rightarrow> [] | Some t \<Rightarrow> [(key, JStr t)])"

definition toolJson :: "MCPTool \<Rightarrow> json" where
  "toolJson t =
     JObj ([(js ''name'', JStr (tool_name t))]
           @ optionalMember (js ''description'') (tool_description t)
           @ [(js ''inputSchema'', inputSchema t)])"

definition resourceJson :: "MCPResource \<Rightarrow> json" where
  "resourceJson r =
     JObj ([(js ''uri'', JStr (resource_uri r)), (js ''name'', JStr (resource_name r))]
           @ optionalMember (js ''description'') (resource_description r)
           @ optionalMember (js ''mimeType'') (mimeType r))"

definition promptJson :: "MCPPrompt \<Rightarrow> json" where
  "promptJson p =
     JObj ([(js ''name'', JStr (prompt_name p))]
           @ optionalMember (js ''description'') (prompt_description p)
           @ (case prompt_arguments p of None \<Rightarrow> [] | Some v \<Rightarrow> [(js ''arguments'', v)]))"

definition success :: "json \<Rightarrow> json \<Rightarrow> JsonRpcResponse" where
  "success i r = \<lparr>resp_id = i, result = Some r, error = None\<rparr>"

definition failure :: "json \<Rightarrow> int \<Rightarrow> jsstring \<Rightarrow> json option \<Rightarrow> JsonRpcResponse" where
  "failure i c m d =
     \<lparr>resp_id = i, result = None, error = Some \<lparr>code = c, message = m, data = d\<rparr>\<rparr>"

definition handleInitialize :: "Gateway \<Rightarrow> json \<Rightarrow> JsonRpcResponse" where
  "handleInitialize gw i =
     (let caps = getMergedCapabilities (registry gw);
          gatewayCapabilities =
            JObj ((if merged_tools caps \<noteq> [] then [(js ''tools'', JObj [])] else [])
                  @ (if merged_resources caps \<noteq> [] then [(js ''resources'', JObj [])] else [])
                  @ (if merged_prompts caps \<noteq> [] then [(js ''prompts'', JObj [])] else []))
      in success i
           (JObj [(js ''protocolVersion'', JStr PROTOCOL_VERSION),
                  (js ''capabilities'', gatewayCapabilities),
                  (js ''serverInfo'',
                   JObj [(js ''name'', JStr (gateway_name (gw_config gw))),
                         (js ''version'', JStr (gateway_version (gw_config gw)))]),
                  (js ''instructions'',
                   JStr (js ''This is a federated MCP gateway. Tools, resources, and prompts are namespaced with server IDs using the format: serverId''
                         @ NAMESPACE_SEPARATOR
                         @ js ''name. Available servers: ''
                         @ joinWith (js '', '') (getServerIds (registry gw))))]))"

definition handleToolsList :: "Gateway \<Rightarrow> json \<Rightarrow> JsonRpcResponse" where
  "handleToolsList gw i =
     success i
       (JObj [(js ''tools'',
               JArr (map (\<lambda>t. toolJson (fst t)) (getNamespacedTools (registry gw))))])"

definition handleResourcesList :: "Gateway \<Rightarrow> json \<Rightarrow> JsonRpcResponse" where
  "handleResourcesList gw i =
     success i
       (JObj [(js ''resources'',
               JArr (map (\<lambda>r. resourceJson (fst r)) (getNamespacedResources (registry gw))))])"

definition handlePromptsList :: "Gateway \<Rightarrow> json \<Rightarrow> JsonRpcResponse" where
  "handlePromptsList gw i =
     success i
       (JObj [(js ''prompts'',
               JArr (map (\<lambda>p. promptJson (fst p)) (getNamespacedPrompts (registry gw))))])"

definition handleResourcesTemplatesList :: "json \<Rightarrow> JsonRpcResponse" where
  "handleResourcesTemplatesList i = success i (JObj [(js ''resourceTemplates'', JArr [])])"

text \<open>
  \<open>handleToolsCall(id, params)\<close>. The parameters are cast, not checked, so the name that
  reaches the router need not be a string. A string is routed. An array has an
  \<open>indexOf\<close> of its own, which looks for an element equal to the separator: without one the
  router answers that the format is invalid, with one it calls \<open>substring\<close>, which an
  array lacks. Any other truthy value has no \<open>indexOf\<close>. An exception leaves the handler.
\<close>

definition handleToolsCall ::
  "Gateway \<Rightarrow> Env \<Rightarrow> int \<Rightarrow> json \<Rightarrow> json option \<Rightarrow> (jsstring + JsonRpcResponse) \<times> Gateway" where
  "handleToolsCall gw env now i params =
     (case member params (js ''name'') of
        Inl err \<Rightarrow> (Inl err, gw)
      | Inr name \<Rightarrow>
          if \<not> truthy name
          then (Inr (failure i (- 32602) (js ''Missing required parameter: name'') None), gw)
          else
            (case name of
               Some (JStr namespacedName) \<Rightarrow>
                 (let args = (case member params (js ''arguments'') of
                                Inr (Some v) \<Rightarrow> (if truthy (Some v) then v else JObj [])
                              | _ \<Rightarrow> JObj []);
                      (response, reg) =
                        routeToolCall (registry gw) (transportStart env) (transportBackend env) now
                          (routerCorrelationId env) namespacedName args
                  in (Inr (response\<lparr>resp_id := i\<rparr>), gw\<lparr>registry := reg\<rparr>))
             | Some (JArr xs) \<Rightarrow>
                 if JStr NAMESPACE_SEPARATOR \<in> set xs
                 then (Inl (js ''namespacedName.substring is not a function''), gw)
                 else (Inr ((errorResponse (- 32602)
                               (js ''Invalid tool name format: '' @ stringOf env (JArr xs)
                                  @ js ''. Expected format: serverId'' @ NAMESPACE_SEPARATOR
                                  @ js ''toolName'')
                               None)\<lparr>resp_id := i\<rparr>),
                       gw)
             | _ \<Rightarrow> (Inl (js ''namespacedName.indexOf is not a function''), gw)))"

text \<open>
  \<open>handleResourcesRead(id, params)\<close>: only a string has a \<open>match\<close> method.
\<close>

definition handleResourcesRead ::
  "Gateway \<Rightarrow> Env \<Rightarrow> int \<Rightarrow> json \<Rightarrow> json option \<Rightarrow> (jsstring + JsonRpcResponse) \<times> Gateway" where
  "handleResourcesRead gw env now i params =
     (case member params (js ''uri'') of
        Inl err \<Rightarrow> (Inl err, gw)
      | Inr u \<Rightarrow>
          if \<not> truthy u
          then (Inr (failure i (- 32602) (js ''Missing required parameter: uri'') None), gw)
          else
            (case u of
               Some (JStr namespacedUri) \<Rightarrow>
                 (let (response, reg) =
                        routeResourceRead (registry gw) (transportStart env) (transportBackend env) now
                          (routerCorrelationId env) namespacedUri
                  in (Inr (response\<lparr>resp_id := i\<rparr>), gw\<lparr>registry := reg\<rparr>))
             | _ \<Rightarrow> (Inl (js ''namespacedUri.match is not a function''), gw)))"

definition handlePromptsGet ::
  "Gateway \<Rightarrow> Env \<Rightarrow> int \<Rightarrow> json \<Rightarrow> json option \<Rightarrow> (jsstring + JsonRpcResponse) \<times> Gateway" where
  "handlePromptsGet gw env now i params =
     (case member params (js ''name'') of
        Inl err \<Rightarrow> (Inl err, gw)
      | Inr name \<Rightarrow>
          if \<not> truthy name
          then (Inr (failure i (- 32602) (js ''Missing required parameter: name'') None), gw)
          else
            (case name of
               Some (JStr namespacedName) \<Rightarrow>
                 (let args = (case member params (js ''arguments'') of
                                Inr v \<Rightarrow> v
                              | Inl err \<Rightarrow> None);
                      (response, reg) =
                        routePromptGet (registry gw) (transportStart env) (transportBackend env) now
                          (routerCorrelationId env) namespacedName args
                  in (Inr (response\<lparr>resp_id := i\<rparr>), gw\<lparr>registry := reg\<rparr>))
             | Some (JArr xs) \<Rightarrow>
                 if JStr NAMESPACE_SEPARATOR \<in> set xs
                 then (Inl (js ''namespacedName.substring is not a function''), gw)
                 else (Inr ((errorResponse (- 32602)
                               (js ''Invalid prompt name format: '' @ stringOf env (JArr xs)
                                  @ js ''. Expected format: serverId'' @ NAMESPACE_SEPARATOR
                                  @ js ''promptName'')
                               None)\<lparr>resp_id := i\<rparr>),
                       gw)
             | _ \<Rightarrow> (Inl (js ''namespacedName.indexOf is not a function''), gw)))"

definition routeMethod ::
  "Gateway \<Rightarrow> Env \<Rightarrow> int \<Rightarrow> JsonRpcRequest \<Rightarrow> (jsstring + JsonRpcResponse) \<times> Gateway" where
  "routeMethod gw env now request =
     (let method = req_method request; params = req_params request; i = req_id request
      in if method = js ''initialize'' then (Inr (handleInitialize gw i), gw)
         else if method = js ''ping'' then (Inr (success i (JObj [])), gw)
         else if method = js ''tools/list'' then (Inr (handleToolsList gw i), gw)
         else if method = js ''tools/call'' then handleToolsCall gw env now i params
         else if method = js ''resources/list'' then (Inr (handleResourcesList gw i), gw)
         else if method = js ''resources/read'' then handleResourcesRead gw env now i params
         else if method = js ''resources/templates/list''
           then (Inr (handleResourcesTemplatesList i), gw)
         else if method = js ''prompts/list'' then (Inr (handlePromptsList gw i), gw)
         else if method = js ''prompts/get'' then handlePromptsGet gw env now i params
         else if method = js ''notifications/initialized''
                 \<or> method = js ''notifications/cancelled''
           then (Inr (success i (JObj [])), gw)
         else (Inr (failure i (- 32601) (js ''Method not found: '' @ method) None), gw))"

text \<open>An empty session identifier is falsy and touches nothing.\<close>

definition handleRequest ::
  "Gateway \<Rightarrow> Env \<Rightarrow> int \<Rightarrow> JsonRpcRequest \<Rightarrow> jsstring option \<Rightarrow> JsonRpcResponse \<times> Gateway" where
  "handleRequest gw env now request sessionId =
     (let gw1 = (case sessionId of
                   None \<Rightarrow> gw
                 | Some sid \<Rightarrow> (if sid = [] then gw else touchSession gw sid (of_int now)))
      in case routeMethod gw1 env now request of
           (Inr response, gw2) \<Rightarrow> (response, gw2)
         | (Inl err, gw2) \<Rightarrow>
             (failure (req_id request) (- 32603) err (correlationData (gatewayCorrelationId env)),
              gw2))"


section \<open>HTTP routes (api/mcp-routes.ts)\<close>

text \<open>
  \<open>JsonRpcRequestSchema.parse(body)\<close>: the request, or \<open>Inl\<close> for a \<open>ZodError\<close>. The body
  has to be an object whose \<open>jsonrpc\<close> is the string \<open>2.0\<close>, whose \<open>id\<close> is absent (then it
  defaults to 0), a string, a number or \<open>null\<close>, and whose \<open>method\<close> is a string.
\<close>

definition parseRequest :: "json option \<Rightarrow> unit + JsonRpcRequest" where
  "parseRequest body =
     (case body of
        Some (JObj m) \<Rightarrow>
          (case (map_of m (js ''jsonrpc''), map_of m (js ''method'')) of
             (Some (JStr v), Some (JStr method)) \<Rightarrow>
               if v = js ''2.0'' then
                 (case map_of m (js ''id'') of
                    None \<Rightarrow>
                      Inr \<lparr>req_id = JNum 0, req_method = method,
                           req_params = map_of m (js ''params'')\<rparr>
                  | Some (JStr t) \<Rightarrow>
                      Inr \<lparr>req_id = JStr t, req_method = method,
                           req_params = map_of m (js ''params'')\<rparr>
                  | Some (JNum r) \<Rightarrow>
                      Inr \<lparr>req_id = JNum r, req_method = method,
                           req_params = map_of m (js ''params'')\<rparr>
                  | Some JNull \<Rightarrow>
                      Inr \<lparr>req_id = JNull, req_method = method,
                           req_params = map_of m (js ''params'')\<rparr>
                  | Some other \<Rightarrow> Inl ())
               else Inl ()
           | _ \<Rightarrow> Inl ())
      | _ \<Rightarrow> Inl ())"

text \<open>\<open>(request.body as { id?: string | number })?.id || 0\<close>.\<close>

definition bodyId :: "json option \<Rightarrow> json" where
  "bodyId body =
     (case body of
        Some (JObj m) \<Rightarrow>
          (case map_of m (js ''id'') of
             None \<Rightarrow> JNum 0
           | Some v \<Rightarrow> (if truthy (Some v) then v else JNum 0))
      | _ \<Rightarrow> JNum 0)"

record HttpReply =
  status :: nat
  body :: JsonRpcResponse

text \<open>
  \<open>POST /message\<close>. The gateway singleton may not exist, in which case \<open>getGateway()\<close>
  throws inside the \<open>try\<close>. \<open>sseConnections\<close> maps a session identifier to whether its
  stream is writable. The result is the HTTP reply, the gateway afterwards and the
  \<open>message\<close> events written to streams.
\<close>

definition postMessage ::
  "Gateway option \<Rightarrow> Env \<Rightarrow> (jsstring \<times> bool) list \<Rightarrow> int \<Rightarrow> json option \<Rightarrow> jsstring option
     \<Rightarrow> HttpReply \<times> Gateway option \<times> (jsstring \<times> JsonRpcResponse) list" where
  "postMessage gateway env sseConnections now reqBody sessionId =
     (case parseRequest reqBody of
        Inl zodError \<Rightarrow>
          (\<lparr>status = 400,
            body = failure (bodyId reqBody) (- 32600) (js ''Invalid Request'')
                     (Some (zodIssues env reqBody))\<rparr>,
           gateway, [])
      | Inr jsonRpcRequest \<Rightarrow>
          (case gateway of
             None \<Rightarrow>
               (\<lparr>status = 500,
                 body = failure (bodyId reqBody) (- 32603) (js ''Internal error'')
                          (Some (JStr (js ''Gateway not initialized. Call createGateway() first.'')))\<rparr>,
                None, [])
           | Some gw \<Rightarrow>
               (let (response, gw') = handleRequest gw env now jsonRpcRequest sessionId;
                    events = (case sessionId of
                                None \<Rightarrow> []
                              | Some sid \<Rightarrow>
                                  (if sid \<noteq> [] \<and> map_of sseConnections sid = Some True
                                   then [(sid, response)] else []))
                in (\<lparr>status = 200, body = response\<rparr>, Some gw', events))))"

text \<open>\<open>POST /rpc\<close> and \<open>POST /sse\<close>: the stateless handler.\<close>

definition handleStatelessRpc ::
  "Gateway option \<Rightarrow> Env \<Rightarrow> int \<Rightarrow> json option \<Rightarrow> HttpReply \<times> Gateway option" where
  "handleStatelessRpc gateway env now reqBody =
     (case parseRequest reqBody of
        Inl zodError \<Rightarrow>
          (\<lparr>status = 400,
            body = failure (bodyId reqBody) (- 32600) (js ''Invalid Request'')
                     (Some (zodIssues env reqBody))\<rparr>,
           gateway)
      | Inr jsonRpcRequest \<Rightarrow>
          (case gateway of
             None \<Rightarrow>
               (\<lparr>status = 500,
                 body = failure (bodyId reqBody) (- 32603) (js ''Internal error'') None\<rparr>,
                None)
           | Some gw \<Rightarrow>
               (let (response, gw') = handleRequest gw env now jsonRpcRequest None
                in (\<lparr>status = 200, body = response\<rparr>, Some gw'))))"


section \<open>Example values\<close>

definition exampleConfig :: ServerConfig where
  "exampleConfig =
     \<lparr>srv_id = js ''fs'', transport = Stdio, srv_enabled = True, lazyLoad = False,
      srv_timeout = 60000, srv_maxRetries = 3\<rparr>"

text \<open>
  A fresh adapter after ten failed requests, after nine, and after ten failures followed
  by a probe past the recovery timeout and one success.
\<close>

definition trippedAdapter :: Adapter where
  "trippedAdapter = breakerRun (replicate 10 (Failure, 0)) (newAdapter exampleConfig 0)"

definition strainedAdapter :: Adapter where
  "strainedAdapter = breakerRun (replicate 9 (Failure, 0)) (newAdapter exampleConfig 0)"

definition probingAdapter :: Adapter where
  "probingAdapter =
     breakerRun (replicate 10 (Failure, 0) @ [(Check, 30000), (Success, 30001)])
       (newAdapter exampleConfig 0)"

text \<open>
  Two backends in registration order, an unhealthy one and a healthy one, each with one
  cached tool; a third configuration to register; a transport whose start succeeds.
\<close>

definition readFileTool :: MCPTool where
  "readFileTool = \<lparr>tool_name = js ''read_file'', tool_description = None, inputSchema = JObj []\<rparr>"

definition searchTool :: MCPTool where
  "searchTool = \<lparr>tool_name = js ''search'', tool_description = None, inputSchema = JObj []\<rparr>"

definition fsAdapter :: Adapter where
  "fsAdapter =
     (newAdapter exampleConfig 0)
       \<lparr>health := Healthy, isConnected := True,
        capabilities := Some \<lparr>tools = Some [readFileTool], resources = None, prompts = None,
                               serverInfo = None\<rparr>\<rparr>"

definition webConfig :: ServerConfig where
  "webConfig = exampleConfig\<lparr>srv_id := js ''web'', transport := SSE\<rparr>"

definition webAdapter :: Adapter where
  "webAdapter =
     (newAdapter webConfig 0)
       \<lparr>health := Unhealthy,
        capabilities := Some \<lparr>tools = Some [searchTool], resources = None, prompts = None,
                               serverInfo = None\<rparr>\<rparr>"

definition exampleRegistry :: Registry where
  "exampleRegistry = \<lparr>adapters = [(js ''web'', webAdapter), (js ''fs'', fsAdapter)]\<rparr>"

definition startsHealthy :: StartFn where
  "startsHealthy a = (None, a\<lparr>health := Healthy, isConnected := True\<rparr>)"

definition dbConfig :: ServerConfig where
  "dbConfig = exampleConfig\<lparr>srv_id := js ''db''\<rparr>"

text \<open>
  A reply of the backend, the arguments of a call, an environment whose backend sends that
  reply, and a gateway over the example registry.
\<close>

definition okReply :: JsonRpcResponse where
  "okReply = \<lparr>resp_id = JNum 1, result = Some (JStr (js ''contents'')), error = None\<rparr>"


definition exampleEnv :: Env where
  "exampleEnv =
     \<lparr>transportStart = startsHealthy,
      transportBackend = (\<lambda>q. Reply 5 okReply),
      gatewayCorrelationId = js ''g1'',
      routerCorrelationId = js ''r1'',
      stringOf = (\<lambda>v. []),
      zodIssues = (\<lambda>v. JArr [])\<rparr>"

definition exampleGateway :: Gateway where
  "exampleGateway =
     \<lparr>gw_config = \<lparr>gateway_name = js ''mcp-gateway'', gateway_version = js ''1.0.0'',
                    sessionTimeout = 3600000\<rparr>,
      registry = exampleRegistry,
      sessions = [],
      isInitialized = True,
      sessionCleanupInterval = Some \<lparr>timer_armedAt = 0, timer_period = 60000\<rparr>,
      expired = []\<rparr>"




text \<open>
  An inbound message has no identifier when its body is not an object or is an object
  without an \<open>id\<close> member.
\<close>

definition idAbsent :: "json option \<Rightarrow> bool" where
  "idAbsent reqBody =
     (case reqBody of
        Some (JObj m) \<Rightarrow> (case map_of m (js ''id'') of None \<Rightarrow> True | Some v \<Rightarrow> False)
      | _ \<Rightarrow> True)"

text \<open>A valid request without an identifier, and an invalid one without an identifier.\<close>

definition probeBody :: "json option" where
  "probeBody = Some (JObj [(js ''jsonrpc'', JStr (js ''2.0'')), (js ''method'', JStr (js ''ping''))])"

definition brokenBody :: "json option" where
  "brokenBody = Some (JObj [(js ''method'', JStr (js ''ping''))])"




section \<open>Namespace round trip\<close>

lemma js_separator: "NAMESPACE_SEPARATOR = [95, 95]"
  by (simp add: NAMESPACE_SEPARATOR_def js_def)

lemma js_scheme: "js ''://'' = [58, 47, 47]"
  by (simp add: js_def)

lemma indexOfFrom_first_separator:
  "\<not> containsDoubleUnderscore s \<Longrightarrow> \<not> endsWithUnderscore s \<Longrightarrow>
   indexOfFrom [95, 95] (s @ 95 # 95 # n) i = i + int (length s)"
proof (induction s arbitrary: i rule: containsDoubleUnderscore.induct)
  case (1 a b cs)
  from "1.prems" have no: "\<not> (a = 95 \<and> b = 95)" and rest: "\<not> containsDoubleUnderscore (b # cs)"
    by simp_all
  from "1.prems" have "\<not> endsWithUnderscore (b # cs)"
    by (simp add: endsWithUnderscore_def)
  with rest have "indexOfFrom [95, 95] ((b # cs) @ 95 # 95 # n) (i + 1) = (i + 1) + int (length (b # cs))"
    by (rule "1.IH")
  with no show ?case by auto
next
  case (2 a)
  then have "a \<noteq> 95" by (simp add: endsWithUnderscore_def)
  then show ?case by simp
next
  case 3
  show ?case by simp
qed

lemma name_round_trip:
  assumes "s \<noteq> []" "n \<noteq> []"
    and "\<not> containsDoubleUnderscore s" "\<not> endsWithUnderscore s"
  shows "parseNamespacedName (createNamespacedName s n) = Some \<lparr>serverId = s, originalName = n\<rparr>"
proof -
  have idx: "indexOf (s @ 95 # 95 # n) [95, 95] = int (length s)"
    using indexOfFrom_first_separator [OF assms(3,4), of n 0] by (simp add: indexOf_def)
  have a: "substring (s @ 95 # 95 # n) 0 (int (length s)) = s"
    by (simp add: substring_def Let_def)
  have "nat (int (length s) + 2) = length s + 2" by simp
  then have b: "substringFrom (s @ 95 # 95 # n) (int (length s) + 2) = n"
    by (simp add: substringFrom_def substring_def Let_def)
  show ?thesis
    using assms(1,2) idx a b
    by (simp add: parseNamespacedName_def createNamespacedName_def js_separator Let_def)
qed

lemma isIdChar_colon: "\<not> isIdChar 58"
  by (simp add: isIdChar_def isAsciiLetter_def isAsciiDigit_def)

lemma uri_round_trip:
  assumes "validServerId s" "u \<noteq> []" "list_all dotMatches u"
  shows "parseNamespacedUri (createNamespacedUri s u) = Some \<lparr>serverId = s, originalName = u\<rparr>"
proof -
  from assms(1) obtain c cs where s: "s = c # cs" and c: "isAsciiLetter c"
    and cs: "list_all isIdChar cs"
    by (auto simp: validServerId_def split: list.splits)
  from cs have all: "\<forall>x\<in>set cs. isIdChar x" by (simp add: list_all_iff)
  have run: "takeWhile isIdChar (cs @ 58 # 47 # 47 # u) = cs"
    using all isIdChar_colon by (simp add: takeWhile_tail)
  have rest: "dropWhile isIdChar (cs @ 58 # 47 # 47 # u) = 58 # 47 # 47 # u"
    using all isIdChar_colon by (simp add: dropWhile_append3)
  show ?thesis
    using c assms(2,3) run rest
    by (simp add: parseNamespacedUri_def createNamespacedUri_def s js_scheme Let_def)
qed

lemma indexOfFrom_early_separator:
  "containsDoubleUnderscore s \<or> endsWithUnderscore s \<Longrightarrow>
   i \<le> indexOfFrom [95, 95] (s @ 95 # 95 # n) i \<and>
   indexOfFrom [95, 95] (s @ 95 # 95 # n) i < i + int (length s)"
proof (induction s arbitrary: i rule: containsDoubleUnderscore.induct)
  case (1 a b cs)
  show ?case
  proof (cases "a = 95 \<and> b = 95")
    case True
    then show ?thesis by simp
  next
    case False
    with "1.prems" have "containsDoubleUnderscore (b # cs) \<or> endsWithUnderscore (b # cs)"
      by (auto simp: endsWithUnderscore_def)
    then have "i + 1 \<le> indexOfFrom [95, 95] ((b # cs) @ 95 # 95 # n) (i + 1) \<and>
               indexOfFrom [95, 95] ((b # cs) @ 95 # 95 # n) (i + 1)
                 < (i + 1) + int (length (b # cs))"
      by (rule "1.IH")
    with False show ?thesis by auto
  qed
next
  case (2 a)
  then have "a = 95" by (simp add: endsWithUnderscore_def)
  then show ?case by simp
next
  case 3
  then show ?case by (simp add: endsWithUnderscore_def)
qed

lemma name_round_trip_fails:
  assumes "containsDoubleUnderscore s \<or> endsWithUnderscore s"
  shows "parseNamespacedName (createNamespacedName s n) \<noteq> Some \<lparr>serverId = s, originalName = n\<rparr>"
proof -
  define idx where "idx = indexOf (s @ 95 # 95 # n) [95, 95]"
  have range: "0 \<le> idx" "idx < int (length s)"
    using indexOfFrom_early_separator [OF assms, of 0 n] by (simp_all add: idx_def indexOf_def)
  then have "length (substring (s @ 95 # 95 # n) 0 idx) = nat idx"
    by (simp add: substring_def Let_def)
  with range have "substring (s @ 95 # 95 # n) 0 idx \<noteq> s" by auto
  then show ?thesis
    by (simp add: parseNamespacedName_def createNamespacedName_def js_separator Let_def
        idx_def [symmetric])
qed

lemma uri_round_trip_fails:
  assumes "validServerId s" "\<not> list_all dotMatches u"
  shows "parseNamespacedUri (createNamespacedUri s u) = None"
proof -
  from assms(1) obtain c cs where s: "s = c # cs" and c: "isAsciiLetter c"
    and cs: "list_all isIdChar cs"
    by (auto simp: validServerId_def split: list.splits)
  from cs have all: "\<forall>x\<in>set cs. isIdChar x" by (simp add: list_all_iff)
  have rest: "dropWhile isIdChar (cs @ 58 # 47 # 47 # u) = 58 # 47 # 47 # u"
    using all isIdChar_colon by (simp add: dropWhile_append3)
  show ?thesis
    using c assms(2) rest
    by (simp add: parseNamespacedUri_def createNamespacedUri_def s js_scheme Let_def)
qed

text \<open>
  Where the parsers of the code give the pair back. For a backend identifier \<open>s\<close> matching
  the identifier pattern and a non-empty name \<open>n\<close>, parsing the namespaced name of \<open>s\<close> and
  \<open>n\<close> gives back \<open>s\<close> and \<open>n\<close> exactly when \<open>s\<close> neither contains two adjacent underscores nor
  ends in an underscore; for a non-empty URI \<open>u\<close>, parsing the namespaced URI of \<open>s\<close> and \<open>u\<close>
  gives back \<open>s\<close> and \<open>u\<close> exactly when \<open>u\<close> contains no line terminator.
\<close>

lemma round_trip_domain:
  "validServerId s \<Longrightarrow>
     (n \<noteq> [] \<longrightarrow>
        (parseNamespacedName (createNamespacedName s n)
           = Some \<lparr>serverId = s, originalName = n\<rparr>)
        = (\<not> containsDoubleUnderscore s \<and> \<not> endsWithUnderscore s)) \<and>
     (u \<noteq> [] \<longrightarrow>
        (parseNamespacedUri (createNamespacedUri s u)
           = Some \<lparr>serverId = s, originalName = u\<rparr>)
        = list_all dotMatches u)"
proof -
  assume valid: "validServerId s"
  then have ne: "s \<noteq> []" by (auto simp: validServerId_def)
  show ?thesis
  proof (intro conjI impI)
    assume "n \<noteq> []"
    then show "(parseNamespacedName (createNamespacedName s n)
                  = Some \<lparr>serverId = s, originalName = n\<rparr>)
               = (\<not> containsDoubleUnderscore s \<and> \<not> endsWithUnderscore s)"
      using ne name_round_trip [of s n] name_round_trip_fails [of s n] by blast
  next
    assume "u \<noteq> []"
    then show "(parseNamespacedUri (createNamespacedUri s u)
                  = Some \<lparr>serverId = s, originalName = u\<rparr>)
               = list_all dotMatches u"
      using valid uri_round_trip [of s u] uri_round_trip_fails [of s u]
      by (cases "list_all dotMatches u") simp_all
  qed
qed

text \<open>The pairs of the router's own round-trip test come back.\<close>

lemma round_trip_examples:
  "parseNamespacedName (createNamespacedName (js ''my_server'') (js ''tool_name''))
     = Some \<lparr>serverId = js ''my_server'', originalName = js ''tool_name''\<rparr> \<and>
   parseNamespacedUri (createNamespacedUri (js ''filesystem'') (js ''file:///home/user/document.txt''))
     = Some \<lparr>serverId = js ''filesystem'', originalName = js ''file:///home/user/document.txt''\<rparr>"
  by (simp add: js_def isAsciiLetter_def isIdChar_def isAsciiDigit_def
      parseNamespacedName_def createNamespacedName_def NAMESPACE_SEPARATOR_def indexOf_def
      substring_def substringFrom_def Let_def parseNamespacedUri_def createNamespacedUri_def
      dotMatches_def isLineTerminator_def)

text \<open>
  C1. The round trip says that for every backend identifier \<open>s\<close> matching the identifier
  pattern and every non-empty name \<open>n\<close>, \<open>parseNamespacedName (createNamespacedName s n)\<close> is
  the pair of \<open>s\<close> and \<open>n\<close>, and likewise \<open>parseNamespacedUri (createNamespacedUri s u)\<close> the pair
  of \<open>s\<close> and \<open>u\<close> for every non-empty URI \<open>u\<close>. The code does not return these pairs. The
  identifier \<open>a_\<close> matches the pattern and holds no separator; the namespaced name of \<open>a_\<close>
  and \<open>x\<close> is \<open>a___x\<close>, which \<open>parseNamespacedName\<close> splits at its first two underscores into
  \<open>a\<close> and \<open>_x\<close>, while \<open>parseNamespacedUri\<close> gives \<open>a_\<close> and \<open>x\<close> back for the same pair. And
  \<open>parseNamespacedUri\<close> returns nothing for a URI that holds a line feed or the line
  separator U+2028.
\<close>

theorem round_trip_fails_in_code:
  "validServerId (js ''a_'') \<and> \<not> containsDoubleUnderscore (js ''a_'') \<and>
   createNamespacedName (js ''a_'') (js ''x'') = js ''a___x'' \<and>
   parseNamespacedName (createNamespacedName (js ''a_'') (js ''x''))
     = Some \<lparr>serverId = js ''a'', originalName = js ''_x''\<rparr> \<and>
   parseNamespacedUri (createNamespacedUri (js ''a_'') (js ''x''))
     = Some \<lparr>serverId = js ''a_'', originalName = js ''x''\<rparr> \<and>
   validServerId (js ''fs'') \<and>
   parseNamespacedUri (createNamespacedUri (js ''fs'') [10]) = None \<and>
   parseNamespacedUri (createNamespacedUri (js ''fs'') (js ''a'' @ [8232])) = None"
  by (simp add: validServerId_def js_def isAsciiLetter_def isIdChar_def isAsciiDigit_def
      parseNamespacedName_def createNamespacedName_def NAMESPACE_SEPARATOR_def indexOf_def
      substring_def substringFrom_def Let_def parseNamespacedUri_def createNamespacedUri_def
      dotMatches_def isLineTerminator_def)


section \<open>Circuit breaker\<close>

lemma trippedAdapter_value:
  "trippedAdapter =
     (newAdapter exampleConfig 0)
       \<lparr>health := Unhealthy, circuitBreakerState := Open,
        circuitBreakerStats :=
          \<lparr>consecutiveFailures = 10, consecutiveSuccesses = 0, totalRequests = 10,
           lastStateChange = 0, lastOpenTime = 0\<rparr>\<rparr>"
  by (simp add: trippedAdapter_def numeral_eq_Suc breakerStep_def recordFailure_def
      newAdapter_def defaultCircuitBreakerConfig_def Let_def)

lemma strainedAdapter_value:
  "strainedAdapter =
     (newAdapter exampleConfig 0)
       \<lparr>circuitBreakerStats :=
          \<lparr>consecutiveFailures = 9, consecutiveSuccesses = 0, totalRequests = 9,
           lastStateChange = 0, lastOpenTime = 0\<rparr>\<rparr>"
  by (simp add: strainedAdapter_def numeral_eq_Suc breakerStep_def recordFailure_def
      newAdapter_def defaultCircuitBreakerConfig_def Let_def)

lemma probingAdapter_value:
  "probingAdapter =
     (newAdapter exampleConfig 0)
       \<lparr>health := Unhealthy, circuitBreakerState := HalfOpen,
        circuitBreakerStats :=
          \<lparr>consecutiveFailures = 0, consecutiveSuccesses = 1, totalRequests = 11,
           lastStateChange = 0, lastOpenTime = 0\<rparr>\<rparr>"
  by (simp add: probingAdapter_def numeral_eq_Suc breakerStep_def recordFailure_def
      recordSuccess_def isCircuitBreakerOpen_def
      newAdapter_def defaultCircuitBreakerConfig_def Let_def)

lemma recordFailure_transport:
  "sendRawCalls (recordFailure a now) = sendRawCalls a"
  "pendingRequests (recordFailure a now) = pendingRequests a"
  "nextRequestId (recordFailure a now) = nextRequestId a"
  "circuitBreakerConfig (recordFailure a now) = circuitBreakerConfig a"
  by (simp_all add: recordFailure_def Let_def)

lemma recordFailure_counters:
  "totalRequests (circuitBreakerStats (recordFailure a now))
     = totalRequests (circuitBreakerStats a) + 1"
  "consecutiveFailures (circuitBreakerStats (recordFailure a now))
     = consecutiveFailures (circuitBreakerStats a) + 1"
  "consecutiveSuccesses (circuitBreakerStats (recordFailure a now)) = 0"
  by (simp_all add: recordFailure_def Let_def)

text \<open>
  What \<open>sendRequest\<close> does while the breaker is open and the recovery timeout has not
  elapsed: the adapter records a failure, draws an identifier, and answers itself.
\<close>

lemma sendRequest_rejected:
  assumes "circuitBreakerState a = Open"
    and "now - lastStateChange (circuitBreakerStats a) < timeout (circuitBreakerConfig a)"
  shows "sendRequest a now backend method params =
           (Inr (circuitOpenResponse (nextRequestId a)
                   ((recordFailure a now)\<lparr>nextRequestId := nextRequestId a + 1\<rparr>)),
            (recordFailure a now)\<lparr>nextRequestId := nextRequestId a + 1\<rparr>)"
proof -
  have chk: "isCircuitBreakerOpen a now = (True, a)"
    using assms by (simp add: isCircuitBreakerOpen_def Let_def)
  show ?thesis
    by (simp add: sendRequest_def chk generateRequestId_def Let_def recordFailure_transport)
qed

text \<open>
  C4. Whenever the circuit breaker is open and less than the recovery timeout has elapsed
  since the last state change, \<open>sendRequest\<close> resolves with a JSON-RPC error response of code
  -32603, whatever the transport would do: \<open>sendRaw\<close> is not invoked (the list of its
  calls is unchanged) and the pending-request table is unchanged.
\<close>

theorem open_circuit_rejection_is_synthetic:
  assumes "circuitBreakerState a = Open"
    and "now - lastStateChange (circuitBreakerStats a) < timeout (circuitBreakerConfig a)"
  shows "\<exists>r a'. sendRequest a now backend method params = (Inr r, a') \<and>
           map_option code (error r) = Some (- 32603) \<and> result r = None \<and>
           sendRawCalls a' = sendRawCalls a \<and>
           pendingRequests a' = pendingRequests a"
  using sendRequest_rejected [OF assms, of backend "method" params]
  by (simp add: circuitOpenResponse_def recordFailure_transport)

theorem open_circuit_rejection_is_synthetic_witness:
  "circuitBreakerState trippedAdapter = Open \<and>
   1000 - lastStateChange (circuitBreakerStats trippedAdapter)
     < timeout (circuitBreakerConfig trippedAdapter) \<and>
   (\<exists>r a'. sendRequest trippedAdapter 1000 (\<lambda>q. NoReply) (js ''tools/call'') None = (Inr r, a') \<and>
      map_option code (error r) = Some (- 32603) \<and> result r = None \<and>
      sendRawCalls a' = [] \<and> pendingRequests a' = [])"
proof -
  have h1: "circuitBreakerState trippedAdapter = Open"
    by (simp add: trippedAdapter_value)
  have h2: "1000 - lastStateChange (circuitBreakerStats trippedAdapter)
              < timeout (circuitBreakerConfig trippedAdapter)"
    by (simp add: trippedAdapter_value newAdapter_def defaultCircuitBreakerConfig_def)
  have e: "sendRawCalls trippedAdapter = []" "pendingRequests trippedAdapter = []"
    by (simp_all add: trippedAdapter_value newAdapter_def)
  show ?thesis
    using h1 h2 e
      open_circuit_rejection_is_synthetic [OF h1 h2, of "\<lambda>q. NoReply" "js ''tools/call''" None]
    by simp
qed

text \<open>
  C10. A request rejected while the breaker is open still changes the adapter: it records
  a failure, so \<open>totalRequests\<close> and \<open>consecutiveFailures\<close> go up by one and
  \<open>consecutiveSuccesses\<close> becomes zero, and it consumes the next request identifier, which
  the synthetic response carries; nothing is handed to \<open>sendRaw\<close>.
\<close>

theorem rejection_is_counted:
  assumes "circuitBreakerState a = Open"
    and "now - lastStateChange (circuitBreakerStats a) < timeout (circuitBreakerConfig a)"
  shows "\<exists>r a'. sendRequest a now backend method params = (Inr r, a') \<and>
           resp_id r = JNum (of_int (nextRequestId a)) \<and>
           nextRequestId a' = nextRequestId a + 1 \<and>
           totalRequests (circuitBreakerStats a') = totalRequests (circuitBreakerStats a) + 1 \<and>
           consecutiveFailures (circuitBreakerStats a')
             = consecutiveFailures (circuitBreakerStats a) + 1 \<and>
           consecutiveSuccesses (circuitBreakerStats a') = 0 \<and>
           sendRawCalls a' = sendRawCalls a"
  using sendRequest_rejected [OF assms, of backend "method" params]
  by (simp add: circuitOpenResponse_def recordFailure_counters recordFailure_transport)

theorem rejection_is_counted_witness:
  "circuitBreakerState trippedAdapter = Open \<and>
   1000 - lastStateChange (circuitBreakerStats trippedAdapter)
     < timeout (circuitBreakerConfig trippedAdapter) \<and>
   (\<exists>r a'. sendRequest trippedAdapter 1000 (\<lambda>q. NoReply) (js ''ping'') None = (Inr r, a') \<and>
      resp_id r = JNum 1 \<and> nextRequestId a' = 2 \<and>
      totalRequests (circuitBreakerStats a') = 11 \<and>
      consecutiveFailures (circuitBreakerStats a') = 11 \<and>
      consecutiveSuccesses (circuitBreakerStats a') = 0 \<and>
      sendRawCalls a' = [])"
proof -
  have h1: "circuitBreakerState trippedAdapter = Open"
    by (simp add: trippedAdapter_value)
  have h2: "1000 - lastStateChange (circuitBreakerStats trippedAdapter)
              < timeout (circuitBreakerConfig trippedAdapter)"
    by (simp add: trippedAdapter_value newAdapter_def defaultCircuitBreakerConfig_def)
  have e: "nextRequestId trippedAdapter = 1"
    "totalRequests (circuitBreakerStats trippedAdapter) = 10"
    "consecutiveFailures (circuitBreakerStats trippedAdapter) = 10"
    "sendRawCalls trippedAdapter = []"
    by (simp_all add: trippedAdapter_value newAdapter_def)
  show ?thesis
    using h1 h2 e rejection_is_counted [OF h1 h2, of "\<lambda>q. NoReply" "js ''ping''" None]
    by simp
qed

text \<open>
  C5 (as amended). Whenever the circuit breaker is half-open, recording a failure moves it
  to open exactly when, counting that failure, \<open>totalRequests\<close> has reached
  \<open>volumeThreshold\<close> and \<open>consecutiveFailures\<close> has reached \<open>failureThreshold\<close>; otherwise the
  breaker stays half-open.
\<close>

theorem half_open_failure:
  assumes "circuitBreakerState a = HalfOpen"
  shows "circuitBreakerState (recordFailure a now) =
           (if totalRequests (circuitBreakerStats a) + 1
                 \<ge> volumeThreshold (circuitBreakerConfig a) \<and>
               consecutiveFailures (circuitBreakerStats a) + 1
                 \<ge> failureThreshold (circuitBreakerConfig a)
            then Open else HalfOpen)"
  using assms by (simp add: recordFailure_def Let_def)

theorem half_open_failure_witness:
  "circuitBreakerState probingAdapter = HalfOpen \<and>
   circuitBreakerState (recordFailure probingAdapter 30002) = HalfOpen \<and>
   circuitBreakerState (breakerStep Check 30000 trippedAdapter) = HalfOpen \<and>
   circuitBreakerState (recordFailure (breakerStep Check 30000 trippedAdapter) 30001) = Open"
proof -
  have h: "circuitBreakerState probingAdapter = HalfOpen"
    by (simp add: probingAdapter_value)
  have v: "breakerStep Check 30000 trippedAdapter =
             trippedAdapter\<lparr>circuitBreakerState := HalfOpen\<rparr>"
    by (simp add: breakerStep_def isCircuitBreakerOpen_def trippedAdapter_value newAdapter_def
        defaultCircuitBreakerConfig_def)
  have g: "circuitBreakerState (breakerStep Check 30000 trippedAdapter) = HalfOpen"
    by (simp add: v)
  have r1: "circuitBreakerState (recordFailure probingAdapter 30002) = HalfOpen"
    using half_open_failure [OF h, of 30002]
    by (simp add: probingAdapter_value newAdapter_def defaultCircuitBreakerConfig_def)
  have r2: "circuitBreakerState (recordFailure (breakerStep Check 30000 trippedAdapter) 30001)
              = Open"
    using half_open_failure [OF g, of 30001] unfolding v
    by (simp add: trippedAdapter_value newAdapter_def defaultCircuitBreakerConfig_def)
  show ?thesis
    using h g r1 r2 by simp
qed

text \<open>
  The relapse as first stated fails on the code. A fresh adapter sees ten failures (the
  breaker opens), a request after the recovery timeout (half-open) and one success, which
  zeroes \<open>consecutiveFailures\<close>; the failure recorded next leaves the breaker half-open.
\<close>

theorem half_open_relapse_counterexample:
  "circuitBreakerState
     (breakerRun (replicate 10 (Failure, 0) @ [(Check, 30000), (Success, 30001)])
        (newAdapter exampleConfig 0)) = HalfOpen \<and>
   circuitBreakerState
     (recordFailure
        (breakerRun (replicate 10 (Failure, 0) @ [(Check, 30000), (Success, 30001)])
           (newAdapter exampleConfig 0)) 30002) = HalfOpen"
  by (simp add: numeral_eq_Suc breakerStep_def recordFailure_def recordSuccess_def
      isCircuitBreakerOpen_def newAdapter_def defaultCircuitBreakerConfig_def Let_def)

lemma breakerStep_config:
  "circuitBreakerConfig (breakerStep ev now a) = circuitBreakerConfig a"
  by (cases ev)
     (simp_all add: breakerStep_def recordFailure_def recordSuccess_def
        isCircuitBreakerOpen_def Let_def split: CircuitState.splits)

lemma breakerRun_config:
  "circuitBreakerConfig (breakerRun evs a) = circuitBreakerConfig a"
proof (induction evs arbitrary: a)
  case Nil
  show ?case by simp
next
  case (Cons e evs)
  obtain ev now where e: "e = (ev, now)" by (cases e)
  show ?case by (simp add: e Cons.IH breakerStep_config)
qed

text \<open>
  C6. From any breaker state, an operation that moves the breaker into open from another
  state is the recording of a failure, and at that moment \<open>totalRequests\<close> has reached
  \<open>volumeThreshold\<close> and \<open>consecutiveFailures\<close> has reached \<open>failureThreshold\<close>. In every state
  reached from a newly built adapter the two thresholds are 10 and 5.
\<close>

theorem volume_gate:
  assumes "circuitBreakerState a \<noteq> Open"
    and "circuitBreakerState (breakerStep ev now a) = Open"
  shows "ev = Failure \<and>
         totalRequests (circuitBreakerStats (breakerStep ev now a))
           \<ge> volumeThreshold (circuitBreakerConfig a) \<and>
         consecutiveFailures (circuitBreakerStats (breakerStep ev now a))
           \<ge> failureThreshold (circuitBreakerConfig a) \<and>
         (\<forall>evs cfg t0. a = breakerRun evs (newAdapter cfg t0) \<longrightarrow>
            volumeThreshold (circuitBreakerConfig a) = 10 \<and>
            failureThreshold (circuitBreakerConfig a) = 5)"
proof -
  have reached: "\<forall>evs cfg t0. a = breakerRun evs (newAdapter cfg t0) \<longrightarrow>
            volumeThreshold (circuitBreakerConfig a) = 10 \<and>
            failureThreshold (circuitBreakerConfig a) = 5"
    by (simp add: breakerRun_config newAdapter_def defaultCircuitBreakerConfig_def)
  show ?thesis
  proof (cases ev)
    case Check
    with assms show ?thesis
      by (cases "circuitBreakerState a")
         (auto simp: breakerStep_def isCircuitBreakerOpen_def Let_def split: if_splits)
  next
    case Success
    with assms show ?thesis
      by (auto simp: breakerStep_def recordSuccess_def Let_def split: if_splits)
  next
    case Failure
    with assms reached show ?thesis
      by (auto simp: breakerStep_def recordFailure_def Let_def split: if_splits)
  qed
qed

theorem volume_gate_witness:
  "circuitBreakerState strainedAdapter \<noteq> Open \<and>
   circuitBreakerState (breakerStep Failure 5 strainedAdapter) = Open \<and>
   totalRequests (circuitBreakerStats (breakerStep Failure 5 strainedAdapter)) \<ge> 10 \<and>
   consecutiveFailures (circuitBreakerStats (breakerStep Failure 5 strainedAdapter)) \<ge> 5"
proof -
  have h1: "circuitBreakerState strainedAdapter \<noteq> Open"
    by (simp add: strainedAdapter_value newAdapter_def)
  have h2: "circuitBreakerState (breakerStep Failure 5 strainedAdapter) = Open"
    by (simp add: strainedAdapter_value newAdapter_def breakerStep_def recordFailure_def
        defaultCircuitBreakerConfig_def Let_def)
  note g = volume_gate [OF h1 h2]
  have c: "volumeThreshold (circuitBreakerConfig strainedAdapter) = 10 \<and>
           failureThreshold (circuitBreakerConfig strainedAdapter) = 5"
    using g [THEN conjunct2, THEN conjunct2, THEN conjunct2, rule_format,
        of "replicate 9 (Failure, 0)" exampleConfig 0]
    by (simp add: strainedAdapter_def)
  show ?thesis
    using h1 h2 c g by simp
qed

section \<open>Capability merge\<close>

lemma pushAll_append: "pushAll f xs acc = acc @ map f xs"
  by (induction xs arbitrary: acc) simp_all

lemma mergeLoop_tools:
  "merged_tools (mergeLoop es acc) =
     merged_tools acc @ concat (map toolsOf (filter (\<lambda>(sid, a). health a = Healthy) es))"
proof (induction es arbitrary: acc)
  case Nil
  show ?case by simp
next
  case (Cons e es)
  obtain sid a where e: "e = (sid, a)" by (cases e)
  show ?case
    unfolding e
    by (simp add: Cons.IH toolsOf_def cachedTools_def pushAll_append Let_def
        split: option.splits)
qed

lemma mergeLoop_resources:
  "merged_resources (mergeLoop es acc) =
     merged_resources acc
       @ concat (map resourcesOf (filter (\<lambda>(sid, a). health a = Healthy) es))"
proof (induction es arbitrary: acc)
  case Nil
  show ?case by simp
next
  case (Cons e es)
  obtain sid a where e: "e = (sid, a)" by (cases e)
  show ?case
    unfolding e
    by (simp add: Cons.IH resourcesOf_def cachedResources_def pushAll_append Let_def
        split: option.splits)
qed

lemma mergeLoop_prompts:
  "merged_prompts (mergeLoop es acc) =
     merged_prompts acc
       @ concat (map promptsOf (filter (\<lambda>(sid, a). health a = Healthy) es))"
proof (induction es arbitrary: acc)
  case Nil
  show ?case by simp
next
  case (Cons e es)
  obtain sid a where e: "e = (sid, a)" by (cases e)
  show ?case
    unfolding e
    by (simp add: Cons.IH promptsOf_def cachedPrompts_def pushAll_append Let_def
        split: option.splits)
qed

lemma mapSet_absent: "map_of m k = None \<Longrightarrow> mapSet m k v = m @ [(k, v)]"
  by (induction m) (auto split: if_splits)

lemma mapSet_last: "map_of m k = None \<Longrightarrow> mapSet (m @ [(k, v)]) k v' = m @ [(k, v')]"
  by (induction m) (auto split: if_splits)

lemma registerServer_appends:
  assumes "registerServer reg start now cfg = Inr reg'"
  shows "\<exists>a'. adapters reg' = adapters reg @ [(srv_id cfg, a')]"
proof -
  from assms have absent: "map_of (adapters reg) (srv_id cfg) = None"
    by (auto simp: registerServer_def mapHas_def split: if_splits option.splits)
  show ?thesis
  proof (cases "\<not> lazyLoad cfg \<and> srv_enabled cfg")
    case True
    obtain err a' where st: "start (newAdapter cfg now) = (err, a')"
      by (cases "start (newAdapter cfg now)")
    from assms absent True st
    have "adapters reg' = adapters reg @ [(srv_id cfg, a')]"
      by (auto simp: registerServer_def mapHas_def Let_def mapSet_absent mapSet_last)
    then show ?thesis by blast
  next
    case False
    from assms absent False
    have "adapters reg' = adapters reg @ [(srv_id cfg, newAdapter cfg now)]"
      by (auto simp: registerServer_def mapHas_def Let_def mapSet_absent)
    then show ?thesis by blast
  qed
qed

text \<open>
  C3. For every registry, \<open>getMergedCapabilities\<close> returns exactly the cached tools,
  resources and prompts of the adapters whose health is healthy (nothing of a stopped,
  starting or unhealthy adapter), each with the identifier of its backend, the backends
  in the order of the registry's map and the entries of a backend in its cached order.
  The order of the map is registration order: a successful \<open>registerServer\<close> puts the new
  backend after all those present.
\<close>

theorem capability_merge:
  "merged_tools (getMergedCapabilities reg) = concat (map toolsOf (healthyAdapters reg)) \<and>
   merged_resources (getMergedCapabilities reg)
     = concat (map resourcesOf (healthyAdapters reg)) \<and>
   merged_prompts (getMergedCapabilities reg) = concat (map promptsOf (healthyAdapters reg)) \<and>
   (registerServer reg start now cfg = Inr reg' \<longrightarrow>
      (\<exists>a'. adapters reg' = adapters reg @ [(srv_id cfg, a')]))"
  by (simp add: getMergedCapabilities_def healthyAdapters_def mergeLoop_tools
      mergeLoop_resources mergeLoop_prompts registerServer_appends)

lemma registerServer_example:
  "registerServer exampleRegistry startsHealthy 0 dbConfig
     = Inr \<lparr>adapters = adapters exampleRegistry
                         @ [(js ''db'', (newAdapter dbConfig 0)
                                          \<lparr>health := Healthy, isConnected := True\<rparr>)]\<rparr>"
  by (simp add: registerServer_def mapHas_def exampleRegistry_def dbConfig_def exampleConfig_def
      js_def startsHealthy_def Let_def)

theorem capability_merge_witness:
  "merged_tools (getMergedCapabilities exampleRegistry)
     = [\<lparr>tool_serverId = js ''fs'', tool = readFileTool\<rparr>] \<and>
   merged_resources (getMergedCapabilities exampleRegistry) = [] \<and>
   merged_prompts (getMergedCapabilities exampleRegistry) = [] \<and>
   registerServer exampleRegistry startsHealthy 0 dbConfig
     = Inr \<lparr>adapters = adapters exampleRegistry
                         @ [(js ''db'', (newAdapter dbConfig 0)
                                          \<lparr>health := Healthy, isConnected := True\<rparr>)]\<rparr>"
proof -
  have h: "healthyAdapters exampleRegistry = [(js ''fs'', fsAdapter)]"
    by (simp add: healthyAdapters_def exampleRegistry_def webAdapter_def fsAdapter_def
        newAdapter_def)
  have t: "toolsOf (js ''fs'', fsAdapter) = [\<lparr>tool_serverId = js ''fs'', tool = readFileTool\<rparr>]"
    "resourcesOf (js ''fs'', fsAdapter) = []" "promptsOf (js ''fs'', fsAdapter) = []"
    by (simp_all add: toolsOf_def resourcesOf_def promptsOf_def cachedTools_def
        cachedResources_def cachedPrompts_def fsAdapter_def newAdapter_def)
  show ?thesis
    using h t registerServer_example
      capability_merge [of exampleRegistry startsHealthy 0 dbConfig
        "\<lparr>adapters = adapters exampleRegistry
                         @ [(js ''db'', (newAdapter dbConfig 0)
                                          \<lparr>health := Healthy, isConnected := True\<rparr>)]\<rparr>"]
    by simp
qed

section \<open>Tool-call routing\<close>















section \<open>Double-precision arithmetic\<close>

text \<open>The bit length of a positive number locates it between two powers of two.\<close>

lemma bitLength_zero: "bitLength 0 = 0"
  by (subst bitLength.simps) simp

lemma bitLength_pos: "0 < n \<Longrightarrow> bitLength n = Suc (bitLength (n div 2))"
  by (subst bitLength.simps) simp

lemma bitLength_bounds:
  "0 < n \<Longrightarrow> 2 ^ (bitLength n - 1) \<le> n \<and> n < 2 ^ bitLength n"
proof (induction n rule: bitLength.induct)
  case (1 n)
  show ?case
  proof (cases "n div 2 = 0")
    case True
    with "1.prems" have "n = 1" by (simp add: div_eq_0_iff)
    then show ?thesis by (simp add: bitLength_pos bitLength_zero)
  next
    case False
    then have pos: "0 < n div 2" by simp
    have ih: "2 ^ (bitLength (n div 2) - 1) \<le> n div 2 \<and> n div 2 < 2 ^ bitLength (n div 2)"
      using "1.IH" "1.prems" pos by simp
    have bl: "bitLength n = Suc (bitLength (n div 2))"
      using "1.prems" by (rule bitLength_pos)
    obtain b where b: "bitLength (n div 2) = Suc b"
      using bitLength_pos [OF pos] by simp
    from ih b have lo: "2 ^ b \<le> n div 2" and hi: "n div 2 < 2 * 2 ^ b" by simp_all
    have "2 * 2 ^ b \<le> n" using lo by simp
    moreover have "n < 2 * (2 * 2 ^ b)" using hi by simp
    ultimately show ?thesis by (simp add: bl b)
  qed
qed

lemma bitLength_le: "n < 2 ^ w \<Longrightarrow> bitLength n \<le> w"
proof (cases "n = 0")
  case True
  then show ?thesis by (simp add: bitLength_zero)
next
  case False
  assume less: "n < 2 ^ w"
  from False have "(2 :: nat) ^ (bitLength n - 1) \<le> n" using bitLength_bounds [of n] by simp
  with less have "(2 :: nat) ^ (bitLength n - 1) < 2 ^ w" by linarith
  then have "bitLength n - 1 < w" by simp
  then show ?thesis by simp
qed

lemma bitLength_gt: "2 ^ w \<le> n \<Longrightarrow> w < bitLength n"
proof -
  assume le: "2 ^ w \<le> n"
  then have "0 < n" by (cases "n = 0") simp_all
  then have "n < 2 ^ bitLength n" using bitLength_bounds [of n] by simp
  with le have "(2 :: nat) ^ w < 2 ^ bitLength n" by linarith
  then show ?thesis by simp
qed

text \<open>
  Rounding to a whole number: whole numbers stay, the error is at most one half, and a
  whole bound on the argument bounds the result.
\<close>

lemma roundTiesToEven_int: "roundTiesToEven (of_int m) = m"
  by (simp add: roundTiesToEven_def)

lemma roundTiesToEven_range:
  "roundTiesToEven x = \<lfloor>x\<rfloor> \<or> roundTiesToEven x = \<lfloor>x\<rfloor> + 1"
  by (simp add: roundTiesToEven_def Let_def)

lemma roundTiesToEven_error: "\<bar>of_int (roundTiesToEven x) - x\<bar> \<le> 1 / 2"
proof -
  have "of_int \<lfloor>x\<rfloor> \<le> x" "x < of_int \<lfloor>x\<rfloor> + 1" by linarith+
  then show ?thesis
    by (simp add: roundTiesToEven_def Let_def)
qed

lemma roundTiesToEven_le: "x \<le> of_int m \<Longrightarrow> roundTiesToEven x \<le> m"
proof (cases "x = of_int m")
  case True
  then show ?thesis by (simp add: roundTiesToEven_int)
next
  case False
  assume "x \<le> of_int m"
  with False have "x < of_int m" by simp
  then have "\<lfloor>x\<rfloor> < m" by (simp add: floor_less_iff)
  then show ?thesis using roundTiesToEven_range [of x] by linarith
qed

lemma roundTiesToEven_ge: "of_int m \<le> x \<Longrightarrow> m \<le> roundTiesToEven x"
proof -
  assume "of_int m \<le> x"
  then have "m \<le> \<lfloor>x\<rfloor>" by (simp add: le_floor_iff)
  then show ?thesis using roundTiesToEven_range [of x] by linarith
qed

text \<open>The spacing around a number, from a bound on the number and from its binade.\<close>

lemma ulpShift_le:
  assumes "\<bar>x\<bar> < 2 ^ w"
  shows "ulpShift p q x \<le> w + q - p"
proof -
  have "\<bar>x\<bar> * 2 ^ q < 2 ^ w * 2 ^ q" using assms by simp
  then have less: "\<bar>x\<bar> * 2 ^ q < 2 ^ (w + q)" by (simp add: power_add)
  have "real (nat \<lfloor>\<bar>x\<bar> * 2 ^ q\<rfloor>) = of_int \<lfloor>\<bar>x\<bar> * 2 ^ q\<rfloor>" by simp
  also have "\<dots> \<le> \<bar>x\<bar> * 2 ^ q" by linarith
  finally have "real (nat \<lfloor>\<bar>x\<bar> * 2 ^ q\<rfloor>) < 2 ^ (w + q)" using less by linarith
  then have "real (nat \<lfloor>\<bar>x\<bar> * 2 ^ q\<rfloor>) < real (2 ^ (w + q))" by simp
  then have "nat \<lfloor>\<bar>x\<bar> * 2 ^ q\<rfloor> < 2 ^ (w + q)" by (simp only: of_nat_less_iff)
  then have "bitLength (nat \<lfloor>\<bar>x\<bar> * 2 ^ q\<rfloor>) \<le> w + q" by (rule bitLength_le)
  then show ?thesis by (simp add: ulpShift_def)
qed

lemma ulpShift_eq:
  assumes "2 ^ (t + p - 1) \<le> \<bar>x\<bar> * 2 ^ q" "\<bar>x\<bar> * 2 ^ q < 2 ^ (t + p)" "1 \<le> p"
  shows "ulpShift p q x = t"
proof -
  let ?N = "nat \<lfloor>\<bar>x\<bar> * 2 ^ q\<rfloor>"
  have "(2 :: real) ^ (t + p - 1) = of_int (2 ^ (t + p - 1))" by simp
  with assms(1) have "of_int (2 ^ (t + p - 1)) \<le> \<bar>x\<bar> * 2 ^ q" by simp
  then have "(2 :: int) ^ (t + p - 1) \<le> \<lfloor>\<bar>x\<bar> * 2 ^ q\<rfloor>" by (simp only: le_floor_iff)
  then have "nat (2 ^ (t + p - 1)) \<le> ?N" by (rule nat_mono)
  then have "2 ^ (t + p - 1) \<le> ?N" by (simp add: nat_power_eq)
  then have lo: "t + p - 1 < bitLength ?N" by (rule bitLength_gt)
  have "real ?N = of_int \<lfloor>\<bar>x\<bar> * 2 ^ q\<rfloor>" by simp
  also have "\<dots> \<le> \<bar>x\<bar> * 2 ^ q" by linarith
  finally have "real ?N < 2 ^ (t + p)" using assms(2) by linarith
  then have "real ?N < real (2 ^ (t + p))" by simp
  then have "?N < 2 ^ (t + p)" by (simp only: of_nat_less_iff)
  then have hi: "bitLength ?N \<le> t + p" by (rule bitLength_le)
  from lo hi assms(3) have "bitLength ?N = t + p" by simp
  then show ?thesis by (simp add: ulpShift_def)
qed

text \<open>
  Rounding to a binary floating-point number: the error is at most half the spacing, a
  whole bound on the argument bounds the result, and within a binade the result is the
  argument rounded to a multiple of the spacing.
\<close>

lemma roundBinary_error:
  "\<bar>roundBinary p q x - x\<bar> \<le> 2 ^ ulpShift p q x / 2 ^ q / 2"
proof -
  define s where "s = ulpShift p q x"
  define u :: real where "u = 2 ^ s / 2 ^ q"
  define y where "y = x * 2 ^ q / 2 ^ s"
  have u: "0 < u" by (simp add: u_def)
  have xy: "x = y * u" by (simp add: y_def u_def)
  have r: "roundBinary p q x = of_int (roundTiesToEven y) * u"
    by (simp add: roundBinary_def Let_def s_def [symmetric] y_def u_def)
  have "roundBinary p q x - x = (of_int (roundTiesToEven y) - y) * u"
    by (simp add: r xy [symmetric] left_diff_distrib)
  then have "\<bar>roundBinary p q x - x\<bar> = \<bar>of_int (roundTiesToEven y) - y\<bar> * u"
    using u by (simp add: abs_mult)
  also have "\<dots> \<le> (1 / 2) * u"
    using roundTiesToEven_error [of y] u by (intro mult_right_mono) simp_all
  finally show ?thesis by (simp add: u_def s_def)
qed


lemma roundBinary_le_int:
  assumes "\<bar>x\<bar> < 2 ^ p" "x \<le> of_int n"
  shows "roundBinary p q x \<le> of_int n"
proof -
  define s where "s = ulpShift p q x"
  have s: "s \<le> q" using ulpShift_le [OF assms(1), of p q] by (simp add: s_def)
  have scale: "(2 :: real) ^ q / 2 ^ s = 2 ^ (q - s)" using s by (simp add: power_diff)
  have "x * 2 ^ (q - s) \<le> of_int n * 2 ^ (q - s)" using assms(2) by simp
  then have "x * 2 ^ q / 2 ^ s \<le> of_int (n * 2 ^ (q - s))"
    using scale by (simp add: field_simps)
  then have "roundTiesToEven (x * 2 ^ q / 2 ^ s) \<le> n * 2 ^ (q - s)"
    by (rule roundTiesToEven_le)
  then have "real_of_int (roundTiesToEven (x * 2 ^ q / 2 ^ s)) \<le> of_int (n * 2 ^ (q - s))"
    by (simp only: of_int_le_iff)
  then have "real_of_int (roundTiesToEven (x * 2 ^ q / 2 ^ s)) * (2 ^ s / 2 ^ q)
               \<le> of_int (n * 2 ^ (q - s)) * (2 ^ s / 2 ^ q)"
    by (intro mult_right_mono) simp_all
  also have "of_int (n * 2 ^ (q - s)) * ((2 :: real) ^ s / 2 ^ q) = of_int n"
    using scale [symmetric] by simp
  finally show ?thesis by (simp add: roundBinary_def Let_def s_def [symmetric])
qed

lemma roundBinary_ge_int:
  assumes "\<bar>x\<bar> < 2 ^ p" "of_int n \<le> x"
  shows "of_int n \<le> roundBinary p q x"
proof -
  define s where "s = ulpShift p q x"
  have s: "s \<le> q" using ulpShift_le [OF assms(1), of p q] by (simp add: s_def)
  have scale: "(2 :: real) ^ q / 2 ^ s = 2 ^ (q - s)" using s by (simp add: power_diff)
  have "of_int n * 2 ^ (q - s) \<le> x * 2 ^ (q - s)" using assms(2) by simp
  then have "of_int (n * 2 ^ (q - s)) \<le> x * 2 ^ q / 2 ^ s"
    using scale by (simp add: field_simps)
  then have "n * 2 ^ (q - s) \<le> roundTiesToEven (x * 2 ^ q / 2 ^ s)"
    by (rule roundTiesToEven_ge)
  then have "of_int (n * 2 ^ (q - s)) \<le> real_of_int (roundTiesToEven (x * 2 ^ q / 2 ^ s))"
    by (simp only: of_int_le_iff)
  then have "of_int (n * 2 ^ (q - s)) * (2 ^ s / 2 ^ q)
               \<le> real_of_int (roundTiesToEven (x * 2 ^ q / 2 ^ s)) * (2 ^ s / 2 ^ q)"
    by (intro mult_right_mono) simp_all
  moreover have "of_int (n * 2 ^ (q - s)) * ((2 :: real) ^ s / 2 ^ q) = of_int n"
    using scale [symmetric] by simp
  ultimately show ?thesis by (simp add: roundBinary_def Let_def s_def [symmetric])
qed

lemma roundBinary_binade:
  assumes "2 ^ (t + p - 1) \<le> \<bar>x\<bar> * 2 ^ q" "\<bar>x\<bar> * 2 ^ q < 2 ^ (t + p)" "1 \<le> p" "t \<le> q"
  shows "roundBinary p q x = of_int (roundTiesToEven (x * 2 ^ (q - t))) / 2 ^ (q - t)"
proof -
  have s: "ulpShift p q x = t" using assms(1,2,3) by (rule ulpShift_eq)
  have scale: "(2 :: real) ^ q / 2 ^ t = 2 ^ (q - t)" using assms(4) by (simp add: power_diff)
  have a: "x * 2 ^ q / 2 ^ t = x * 2 ^ (q - t)"
    by (simp only: times_divide_eq_right [symmetric] scale)
  have b: "(2 :: real) ^ t / 2 ^ q = 1 / 2 ^ (q - t)" using scale [symmetric] by simp
  have "roundBinary p q x = of_int (roundTiesToEven (x * 2 ^ (q - t))) * (2 ^ t / 2 ^ q)"
    by (simp add: roundBinary_def Let_def s a)
  also have "\<dots> = of_int (roundTiesToEven (x * 2 ^ (q - t))) * (1 / 2 ^ (q - t))"
    by (simp only: b)
  finally show ?thesis by simp
qed

lemma roundBinary_ge1:
  assumes "2 ^ a \<le> \<bar>x\<bar>" "\<bar>x\<bar> < 2 ^ (a + 1)" "a < p" "p \<le> q + a + 1"
  shows "roundBinary p q x = of_int (roundTiesToEven (x * 2 ^ (p - 1 - a))) / 2 ^ (p - 1 - a)"
proof -
  define t where "t = a + q + 1 - p"
  have e1: "t + p - 1 = a + q" and e2: "t + p = (a + 1) + q" and e3: "q - t = p - 1 - a"
    and e4: "t \<le> q" and e5: "1 \<le> p"
    using assms(3,4) by (simp_all add: t_def)
  have "(2 :: real) ^ a * 2 ^ q \<le> \<bar>x\<bar> * 2 ^ q" using assms(1) by simp
  then have lo: "2 ^ (t + p - 1) \<le> \<bar>x\<bar> * 2 ^ q" by (simp only: e1 power_add)
  have "\<bar>x\<bar> * 2 ^ q < 2 ^ (a + 1) * 2 ^ q" using assms(2) by simp
  then have hi: "\<bar>x\<bar> * 2 ^ q < 2 ^ (t + p)" by (simp only: e2 power_add)
  show ?thesis
    using roundBinary_binade [OF lo hi e5 e4] by (simp only: e3)
qed

lemma roundBinary_lt1:
  assumes "1 \<le> \<bar>x\<bar> * 2 ^ a" "\<bar>x\<bar> * 2 ^ a < 2" "a + p \<le> q + 1" "1 \<le> p"
  shows "roundBinary p q x = of_int (roundTiesToEven (x * 2 ^ (p - 1 + a))) / 2 ^ (p - 1 + a)"
proof -
  define t where "t = q + 1 - (a + p)"
  define b where "b = q - a"
  have e1: "t + p - 1 = b" and e2: "t + p = Suc b" and e3: "q - t = p - 1 + a"
    and e4: "t \<le> q" and e6: "q = a + b"
    using assms(3,4) by (simp_all add: t_def b_def)
  have pq: "(2 :: real) ^ q = 2 ^ a * 2 ^ b" by (simp only: e6 power_add)
  have "1 * 2 ^ b \<le> \<bar>x\<bar> * 2 ^ a * 2 ^ b"
    using assms(1) by (intro mult_right_mono) simp_all
  then have lo: "2 ^ (t + p - 1) \<le> \<bar>x\<bar> * 2 ^ q"
    by (simp only: e1 pq mult.assoc mult_1)
  have "\<bar>x\<bar> * 2 ^ a * 2 ^ b < 2 * 2 ^ b"
    using assms(2) by (intro mult_strict_right_mono) simp_all
  then have hi: "\<bar>x\<bar> * 2 ^ q < 2 ^ (t + p)"
    by (simp only: e2 pq mult.assoc power_Suc)
  show ?thesis
    using roundBinary_binade [OF lo hi assms(4) e4] by (simp only: e3)
qed

lemma roundBinary_relative_error:
  assumes "1 \<le> \<bar>x\<bar>" "1 \<le> p" "p \<le> q + 1"
  shows "\<bar>roundBinary p q x - x\<bar> \<le> \<bar>x\<bar> / 2 ^ p"
proof -
  let ?N = "nat \<lfloor>\<bar>x\<bar> * 2 ^ q\<rfloor>"
  define s where "s = ulpShift p q x"
  have floor_le: "real ?N \<le> \<bar>x\<bar> * 2 ^ q"
  proof -
    have "real ?N = of_int \<lfloor>\<bar>x\<bar> * 2 ^ q\<rfloor>" by simp
    also have "\<dots> \<le> \<bar>x\<bar> * 2 ^ q" by linarith
    finally show ?thesis .
  qed
  have lower: "(2 :: real) ^ (s + (p - 1)) \<le> \<bar>x\<bar> * 2 ^ q"
  proof (cases "bitLength ?N \<le> p")
    case True
    then have s0: "s = 0" by (simp add: s_def ulpShift_def)
    have "(2 :: real) ^ (p - 1) \<le> 2 ^ q" using assms(3) by (intro power_increasing) simp_all
    also have "(2 :: real) ^ q \<le> \<bar>x\<bar> * 2 ^ q" using assms(1) by simp
    finally show ?thesis by (simp only: s0 add_0)
  next
    case False
    then have sp: "s + (p - 1) = bitLength ?N - 1" using assms(2) by (simp add: s_def ulpShift_def)
    from False have "?N \<noteq> 0" by (auto simp: bitLength_zero)
    then have "2 ^ (bitLength ?N - 1) \<le> ?N" using bitLength_bounds [of ?N] by simp
    then have "real (2 ^ (bitLength ?N - 1)) \<le> real ?N" by (simp only: of_nat_le_iff)
    then have "(2 :: real) ^ (bitLength ?N - 1) \<le> real ?N" by simp
    with floor_le show ?thesis by (simp only: sp)
  qed
  have "(2 :: real) ^ s * 2 ^ (p - 1) \<le> \<bar>x\<bar> * 2 ^ q" using lower by (simp only: power_add)
  then have "(2 :: real) ^ s \<le> \<bar>x\<bar> * 2 ^ q / 2 ^ (p - 1)" by (simp add: pos_le_divide_eq)
  then have "(2 :: real) ^ s / 2 ^ q \<le> \<bar>x\<bar> * 2 ^ q / 2 ^ (p - 1) / 2 ^ q"
    by (intro divide_right_mono) simp_all
  also have "\<dots> = \<bar>x\<bar> / 2 ^ (p - 1)" by simp
  finally have "(2 :: real) ^ s / 2 ^ q / 2 \<le> \<bar>x\<bar> / 2 ^ (p - 1) / 2" by simp
  also have "\<bar>x\<bar> / 2 ^ (p - 1) / 2 = \<bar>x\<bar> / 2 ^ Suc (p - 1)" by simp
  also have "Suc (p - 1) = p" using assms(2) by simp
  finally show ?thesis using roundBinary_error [of p q x] by (simp add: s_def)
qed

text \<open>The same for doubles, and the two constants of the default retry configuration.\<close>

lemma double_ge1:
  assumes "2 ^ a \<le> \<bar>x\<bar>" "\<bar>x\<bar> < 2 ^ (a + 1)" "a \<le> 52"
  shows "double x = of_int (roundTiesToEven (x * 2 ^ (52 - a))) / 2 ^ (52 - a)"
  using roundBinary_ge1 [OF assms(1,2), of 53 1074] assms(3) by (simp add: double_def)

lemma double_lt1:
  assumes "1 \<le> \<bar>x\<bar> * 2 ^ a" "\<bar>x\<bar> * 2 ^ a < 2" "a \<le> 1022"
  shows "double x = of_int (roundTiesToEven (x * 2 ^ (52 + a))) / 2 ^ (52 + a)"
  using roundBinary_lt1 [OF assms(1,2), of 53 1074] assms(3) by (simp add: double_def)


lemma double_le_int: "\<bar>x\<bar> < 2 ^ 53 \<Longrightarrow> x \<le> of_int n \<Longrightarrow> double x \<le> of_int n"
  unfolding double_def by (rule roundBinary_le_int)

lemma double_ge_int: "\<bar>x\<bar> < 2 ^ 53 \<Longrightarrow> of_int n \<le> x \<Longrightarrow> of_int n \<le> double x"
  unfolding double_def by (rule roundBinary_ge_int)

lemma double_int: "\<bar>real_of_int n\<bar> < 2 ^ 53 \<Longrightarrow> double (of_int n) = of_int n"
  using double_le_int [of "of_int n" n] double_ge_int [of "of_int n" n] by simp

lemma double_relative_error: "1 \<le> \<bar>x\<bar> \<Longrightarrow> \<bar>double x - x\<bar> \<le> \<bar>x\<bar> / 32"
proof -
  assume x: "1 \<le> \<bar>x\<bar>"
  then have "\<bar>double x - x\<bar> \<le> \<bar>x\<bar> / 2 ^ 53"
    unfolding double_def by (intro roundBinary_relative_error) simp_all
  also have "\<dots> \<le> \<bar>x\<bar> / 32" by (intro divide_left_mono) simp_all
  finally show ?thesis .
qed

lemma double_tenth: "double (1 / 10) = 3602879701896397 / 36028797018963968"
  using double_lt1 [of "1 / 10" 4] by (simp add: roundTiesToEven_def Let_def)

lemma double_hundred: "double (1000 * double (1 / 10)) = 100"
  using double_ge1 [of 6 "1000 * (3602879701896397 / 36028797018963968)"]
  by (simp add: double_tenth roundTiesToEven_def Let_def)


section \<open>Backoff delay\<close>

text \<open>
  Under the default configuration the jitter is \<open>r * 100\<close>, rounded to a double, and while
  the count is at most 4 the cap is not reached: the delay is the exponential part plus a
  whole jitter between 0 and 100 that is the draw \<open>r * 100\<close> up to rounding.
\<close>

lemma getBackoffDelay_default:
  assumes "retryConfig a = defaultRetryConfig"
  shows "getBackoffDelay a r
           = round (min (double (double (1000 * 2 ^ count (retryState a)) + double (r * 100)))
                        30000)"
  using assms by (simp add: getBackoffDelay_def defaultRetryConfig_def Let_def double_hundred)





text \<open>
  The rounding of the sum shows in the result: for the draw \<open>22517998136852 / 2^52\<close> at
  count 0 the jitter is just below one half, the sum is rounded to \<open>1000.5\<close> and the delay is
  1001, where exact arithmetic gives 1000.
\<close>

lemma backoff_double_rounding:
  "getBackoffDelay (newAdapter exampleConfig 0) (22517998136852 / 2 ^ 52) = 1001 \<and>
   round (1000 + 22517998136852 / 2 ^ 52 * (100 :: real)) = 1000"
proof -
  have a: "double 1000 = 1000" using double_int [of 1000] by simp
  have b: "double (140737488355325 / 281474976710656) = 140737488355325 / 281474976710656"
    using double_lt1 [of "140737488355325 / 281474976710656" 2]
    by (simp add: roundTiesToEven_def Let_def)
  have c: "double (281615714199011325 / 281474976710656) = 2001 / 2"
    using double_ge1 [of 9 "281615714199011325 / 281474976710656"]
    by (simp add: roundTiesToEven_def Let_def)
  have "getBackoffDelay (newAdapter exampleConfig 0) (22517998136852 / 2 ^ 52) = 1001"
    by (simp add: getBackoffDelay_def newAdapter_def defaultRetryConfig_def Let_def
        double_hundred a b c round_def)
  moreover have "round (1000 + 22517998136852 / 2 ^ 52 * (100 :: real)) = 1000"
    by (simp add: round_def)
  ultimately show ?thesis by simp
qed

text \<open>
  From count 5 on, which \<open>handleCrash\<close> does not reach under the default of three retries,
  the exponential part alone is above the cap and the delay is the cap, whatever the draw.
\<close>

lemma backoff_capped:
  assumes "retryConfig a = defaultRetryConfig" "0 \<le> r" "r < 1" "5 \<le> count (retryState a)"
  shows "getBackoffDelay a r = 30000"
proof -
  define e :: real where "e = 1000 * 2 ^ count (retryState a)"
  define jit where "jit = double (r * 100)"
  have "(2 :: real) ^ 5 \<le> 2 ^ count (retryState a)"
    using assms(4) by (intro power_increasing) simp_all
  then have e: "32000 \<le> e" by (simp add: e_def)
  have "\<bar>double e - e\<bar> \<le> \<bar>e\<bar> / 32" using e by (intro double_relative_error) simp
  with e have de: "31000 \<le> double e" by linarith
  have x: "0 \<le> r * 100" "r * 100 \<le> 100" using assms(2,3) by simp_all
  then have "\<bar>r * 100\<bar> < 2 ^ 53" by simp
  then have j0: "0 \<le> jit" using double_ge_int [of "r * 100" 0] x(1) by (simp add: jit_def)
  define x where "x = double e + jit"
  have x31: "31000 \<le> x" using de j0 by (simp add: x_def)
  then have "\<bar>double x - x\<bar> \<le> \<bar>x\<bar> / 32" by (intro double_relative_error) simp
  with x31 have "30000 \<le> double x" by linarith
  then have "30000 \<le> double (double e + jit)" by (simp only: x_def)
  then have "min (double (double e + jit)) 30000 = 30000" by simp
  then show ?thesis
    by (simp add: getBackoffDelay_default [OF assms(1)] e_def jit_def)
qed


section \<open>Session eviction\<close>














text \<open>
  Nothing but \<open>startSessionCleanup\<close> writes the timer of the gateway and nothing writes its
  configuration: creating, touching and removing a session, a sweep and the handling of a
  request leave both as they are.
\<close>

lemma createSession_keeps:
  "sessionCleanupInterval (snd (createSession gw now uuid info)) = sessionCleanupInterval gw \<and>
   gw_config (snd (createSession gw now uuid info)) = gw_config gw"
  by (simp add: createSession_def Let_def)

lemma touchSession_keeps:
  "sessionCleanupInterval (touchSession gw sid now) = sessionCleanupInterval gw \<and>
   gw_config (touchSession gw sid now) = gw_config gw"
  by (simp add: touchSession_def split: option.splits)

lemma removeSession_keeps:
  "sessionCleanupInterval (removeSession gw sid) = sessionCleanupInterval gw \<and>
   gw_config (removeSession gw sid) = gw_config gw"
  by (simp add: removeSession_def)

lemma handleToolsCall_keeps:
  "sessionCleanupInterval (snd (handleToolsCall gw env now i params)) = sessionCleanupInterval gw \<and>
   gw_config (snd (handleToolsCall gw env now i params)) = gw_config gw"
  by (simp add: handleToolsCall_def Let_def
      split: sum.splits option.splits json.splits prod.splits)

lemma handleResourcesRead_keeps:
  "sessionCleanupInterval (snd (handleResourcesRead gw env now i params)) = sessionCleanupInterval gw \<and>
   gw_config (snd (handleResourcesRead gw env now i params)) = gw_config gw"
  by (simp add: handleResourcesRead_def Let_def
      split: sum.splits option.splits json.splits prod.splits)

lemma handlePromptsGet_keeps:
  "sessionCleanupInterval (snd (handlePromptsGet gw env now i params)) = sessionCleanupInterval gw \<and>
   gw_config (snd (handlePromptsGet gw env now i params)) = gw_config gw"
  by (simp add: handlePromptsGet_def Let_def
      split: sum.splits option.splits json.splits prod.splits)

lemma routeMethod_keeps:
  "sessionCleanupInterval (snd (routeMethod gw env now request)) = sessionCleanupInterval gw \<and>
   gw_config (snd (routeMethod gw env now request)) = gw_config gw"
  by (simp add: routeMethod_def Let_def handleToolsCall_keeps handleResourcesRead_keeps
      handlePromptsGet_keeps)

lemma handleRequest_keeps:
  "sessionCleanupInterval (snd (handleRequest gw env now request sessionId))
     = sessionCleanupInterval gw \<and>
   gw_config (snd (handleRequest gw env now request sessionId)) = gw_config gw"
proof -
  define gw1 where
    "gw1 = (case sessionId of
              None \<Rightarrow> gw
            | Some sid \<Rightarrow> (if sid = [] then gw else touchSession gw sid (of_int now)))"
  have a: "sessionCleanupInterval gw1 = sessionCleanupInterval gw \<and> gw_config gw1 = gw_config gw"
    by (simp add: gw1_def touchSession_keeps split: option.splits)
  obtain out gw2 where r: "routeMethod gw1 env now request = (out, gw2)"
    by (cases "routeMethod gw1 env now request")
  with routeMethod_keeps [of gw1 env now request] a
  have b: "sessionCleanupInterval gw2 = sessionCleanupInterval gw \<and> gw_config gw2 = gw_config gw"
    by simp
  have "snd (handleRequest gw env now request sessionId) = gw2"
    using r by (simp add: handleRequest_def Let_def gw1_def [symmetric] split: sum.splits)
  with b show ?thesis by simp
qed








section \<open>Reply identifiers\<close>

lemma handleToolsCall_id:
  "handleToolsCall gw env now i params = (Inr r, gw') \<Longrightarrow> resp_id r = i"
  by (auto simp: handleToolsCall_def failure_def Let_def
      split: sum.splits option.splits json.splits prod.splits if_splits)

lemma handleResourcesRead_id:
  "handleResourcesRead gw env now i params = (Inr r, gw') \<Longrightarrow> resp_id r = i"
  by (auto simp: handleResourcesRead_def failure_def Let_def
      split: sum.splits option.splits json.splits prod.splits if_splits)

lemma handlePromptsGet_id:
  "handlePromptsGet gw env now i params = (Inr r, gw') \<Longrightarrow> resp_id r = i"
  by (auto simp: handlePromptsGet_def failure_def Let_def
      split: sum.splits option.splits json.splits prod.splits if_splits)

lemma routeMethod_id:
  "routeMethod gw env now request = (Inr r, gw') \<Longrightarrow> resp_id r = req_id request"
  by (auto simp: routeMethod_def Let_def success_def failure_def handleInitialize_def
      handleToolsList_def handleResourcesList_def handlePromptsList_def
      handleResourcesTemplatesList_def
      dest: handleToolsCall_id handleResourcesRead_id handlePromptsGet_id
      split: if_splits)

lemma handleRequest_id:
  "resp_id (fst (handleRequest gw env now request sessionId)) = req_id request"
proof -
  define gw1 where "gw1 = (case sessionId of
                   None \<Rightarrow> gw
                 | Some sid \<Rightarrow> (if sid = [] then gw else touchSession gw sid (of_int now)))"
  obtain out gw2 where r: "routeMethod gw1 env now request = (out, gw2)"
    by (cases "routeMethod gw1 env now request")
  show ?thesis
  proof (cases out)
    case (Inl err)
    with r show ?thesis
      by (simp add: handleRequest_def gw1_def [symmetric] failure_def)
  next
    case (Inr response)
    with r routeMethod_id [of gw1 env now request response gw2] show ?thesis
      by (simp add: handleRequest_def gw1_def [symmetric])
  qed
qed

lemma parseRequest_absent_id:
  "idAbsent reqBody \<Longrightarrow> parseRequest reqBody = Inr request \<Longrightarrow> req_id request = JNum 0"
  by (auto simp: idAbsent_def parseRequest_def
      split: option.splits json.splits if_splits)

lemma bodyId_absent: "idAbsent reqBody \<Longrightarrow> bodyId reqBody = JNum 0"
  by (auto simp: idAbsent_def bodyId_def split: option.splits json.splits)

text \<open>
  C9. For every inbound message without an identifier, the reply of \<open>POST /message\<close> and of
  the stateless handler carries the identifier 0, whichever path produced it: the
  validation error (-32600), the internal error (-32603) or the gateway's response.
\<close>

theorem absent_id_defaults_to_zero:
  assumes "idAbsent reqBody"
  shows "resp_id (body (fst (postMessage gateway env sseConnections now reqBody sessionId))) = JNum 0 \<and>
         resp_id (body (fst (handleStatelessRpc gateway env now reqBody))) = JNum 0"
proof (cases "parseRequest reqBody")
  case (Inl zodError)
  then show ?thesis
    using bodyId_absent [OF assms]
    by (simp add: postMessage_def handleStatelessRpc_def failure_def)
next
  case (Inr request)
  note z = parseRequest_absent_id [OF assms Inr]
  show ?thesis
  proof (cases gateway)
    case None
    with Inr show ?thesis
      using bodyId_absent [OF assms]
      by (simp add: postMessage_def handleStatelessRpc_def failure_def)
  next
    case (Some gw)
    have a: "resp_id (fst (handleRequest gw env now request sessionId)) = JNum 0"
      and b: "resp_id (fst (handleRequest gw env now request None)) = JNum 0"
      using z by (simp_all add: handleRequest_id)
    from Inr Some a b show ?thesis
      by (auto simp: postMessage_def handleStatelessRpc_def Let_def split: prod.splits)
  qed
qed

theorem absent_id_defaults_to_zero_witness:
  "idAbsent probeBody \<and> idAbsent brokenBody \<and>
   fst (postMessage (Some exampleGateway) exampleEnv [] 0 probeBody None)
     = \<lparr>status = 200, body = \<lparr>resp_id = JNum 0, result = Some (JObj []), error = None\<rparr>\<rparr> \<and>
   resp_id (body (fst (postMessage (Some exampleGateway) exampleEnv [] 0 brokenBody None)))
     = JNum 0 \<and>
   status (fst (postMessage (Some exampleGateway) exampleEnv [] 0 brokenBody None)) = 400 \<and>
   resp_id (body (fst (postMessage None exampleEnv [] 0 probeBody None))) = JNum 0 \<and>
   status (fst (postMessage None exampleEnv [] 0 probeBody None)) = 500"
proof -
  have a: "idAbsent probeBody" "idAbsent brokenBody"
    by (simp_all add: idAbsent_def probeBody_def brokenBody_def js_def)
  have p: "parseRequest probeBody
             = Inr \<lparr>req_id = JNum 0, req_method = js ''ping'', req_params = None\<rparr>"
    by (simp add: parseRequest_def probeBody_def js_def)
  have b: "parseRequest brokenBody = Inl ()"
    by (simp add: parseRequest_def brokenBody_def js_def)
  have ok: "fst (postMessage (Some exampleGateway) exampleEnv [] 0 probeBody None)
     = \<lparr>status = 200, body = \<lparr>resp_id = JNum 0, result = Some (JObj []), error = None\<rparr>\<rparr>"
    by (simp add: postMessage_def p handleRequest_def routeMethod_def success_def js_def Let_def)
  have s4: "status (fst (postMessage (Some exampleGateway) exampleEnv [] 0 brokenBody None)) = 400"
    by (simp add: postMessage_def b)
  have s5: "status (fst (postMessage None exampleEnv [] 0 probeBody None)) = 500"
    by (simp add: postMessage_def p)
  show ?thesis
    using a ok s4 s5
      absent_id_defaults_to_zero [OF a(2), of "Some exampleGateway" exampleEnv "[]" 0 None]
      absent_id_defaults_to_zero [OF a(1), of None exampleEnv "[]" 0 None]
    by simp
qed

end
